theory Spec2Isabelle
  imports Complex_Main "HOL-Library.Sublist" "HOL-Library.Multiset" "HOL-Library.Char_ord"
    "HOL-Library.List_Lexorder"
begin

section \<open>Strings and numbers of the host language\<close>

text \<open>
  A JavaScript string is modelled as the list of the bytes of its UTF-8 encoding
  (\<^typ>\<open>string\<close>). Substring search, prefix and suffix tests and concatenation of
  well-formed strings agree with the source's under this encoding.
\<close>

subsection \<open>Functions of the host\<close>

text \<open>
  What the host's Unicode tables, its locale, its floating-point arithmetic and its
  built-in objects decide is taken from the host:
  \<^item> \<open>toLowerCase h s\<close> is \<open>s.toLowerCase()\<close>, the case mapping of Unicode;
  \<^item> \<open>localeCompare h a b\<close> is \<open>a.localeCompare(b)\<close>, negative, zero or positive;
  \<^item> \<open>toLocaleDateString h s\<close> is \<open>new Date(s).toLocaleDateString()\<close>;
  \<^item> \<open>percentage h bytes total\<close> is \<open>((bytes / total) * 100).toFixed(1)\<close>;
  \<^item> \<open>Math_floor_log h bytes k\<close> is \<open>Math.floor(Math.log(bytes) / Math.log(k))\<close> for
    \<open>bytes \<ge> 1\<close>, as the host's floating-point logarithm gives it;
  \<^item> \<open>inherited_property h key\<close> is the text of \<open>({})[key]\<close> when \<open>key\<close> names a
    property that every object inherits (such as \<open>constructor\<close>), and \<open>None\<close> for any
    other key. An inherited property is a function or an object, hence truthy.
\<close>

record host =
  toLowerCase :: "string \<Rightarrow> string"
  localeCompare :: "string \<Rightarrow> string \<Rightarrow> int"
  toLocaleDateString :: "string \<Rightarrow> string"
  percentage :: "nat \<Rightarrow> nat \<Rightarrow> string"
  Math_floor_log :: "nat \<Rightarrow> nat \<Rightarrow> nat"
  inherited_property :: "string \<Rightarrow> string option"

text \<open>
  \<open>c.toUpperCase()\<close> for a character \<open>c\<close> that matches \<open>\w\<close>, which is an ASCII letter, a
  digit or the underscore.
\<close>

definition toUpperCase_char :: "char \<Rightarrow> char" where
  "toUpperCase_char c =
     (case map_of (zip ''abcdefghijklmnopqrstuvwxyz'' ''ABCDEFGHIJKLMNOPQRSTUVWXYZ'') c of
        Some u \<Rightarrow> u | None \<Rightarrow> c)"

text \<open>\<open>s.includes(t)\<close> and \<open>s.endsWith(t)\<close> on strings.\<close>

definition includes_str :: "string \<Rightarrow> string \<Rightarrow> bool" where
  "includes_str s t = sublist t s"

definition endsWith :: "string \<Rightarrow> string \<Rightarrow> bool" where
  "endsWith s t = suffix t s"

text \<open>\<open>xs.join(sep)\<close> on an array of strings.\<close>

fun join :: "string \<Rightarrow> string list \<Rightarrow> string" where
  "join sep [] = []"
| "join sep [x] = x"
| "join sep (x # y # ys) = x @ sep @ join sep (y # ys)"

text \<open>A value used as a condition: the empty string is falsy, as is \<open>null\<close>.\<close>

definition truthy_string :: "string \<Rightarrow> bool" where
  "truthy_string s = (s \<noteq> [])"

fun or_else :: "string option \<Rightarrow> string \<Rightarrow> string" where
  "or_else None d = d"
| "or_else (Some s) d = (if truthy_string s then s else d)"

text \<open>Decimal digits of a natural number.\<close>

definition digit_char :: "nat \<Rightarrow> char" where
  "digit_char n = ''0123456789'' ! n"

function show_nat :: "nat \<Rightarrow> string" where
  "show_nat n = (if n < 10 then [digit_char n] else show_nat (n div 10) @ [digit_char (n mod 10)])"
  by pat_completeness auto
termination
  by (relation "measure (\<lambda>n. n)") auto

declare show_nat.simps [simp del]

subsection \<open>Size formatting\<close>

text \<open>
  \<open>(a / b).toFixed(2)\<close> for a quotient that the host represents exactly (here \<open>a\<close> is
  below \<open>2 ^ 53\<close> and \<open>b\<close> is a power of two): the decimal with two fraction digits
  nearest to \<open>a / b\<close>, the larger one on a tie. The result is given by its value in
  hundredths.
\<close>

definition toFixed_2 :: "nat \<Rightarrow> nat \<Rightarrow> nat" where
  "toFixed_2 a b = (200 * a + b) div (2 * b)"

text \<open>
  \<open>parseFloat(fixed) + ' '\<close>: the string is read back as a number, and the
  concatenation prints the number in its shortest decimal form, so the fraction loses its
  trailing zeros, and the decimal point when nothing follows it.
\<close>

definition parseFloat_toString :: "nat \<Rightarrow> string" where
  "parseFloat_toString n =
     show_nat (n div 100) @
     (let f = n mod 100 in
      if f = 0 then []
      else ''.'' @ [digit_char (f div 10)] @ (if f mod 10 = 0 then [] else [digit_char (f mod 10)]))"

definition sizes :: "string list" where
  "sizes = [''Bytes'', ''KB'', ''MB'', ''GB'']"

text \<open>\<open>sizes[i]\<close> in a concatenation: an index past the end reads \<open>undefined\<close>.\<close>

definition sizes_at :: "nat \<Rightarrow> string" where
  "sizes_at i = (if i < length sizes then sizes ! i else ''undefined'')"

definition formatBytes :: "host \<Rightarrow> nat \<Rightarrow> string" where
  "formatBytes h bytes =
     (if bytes = 0 then ''0 Bytes''
      else
        (let k = 1024;
             i = Math_floor_log h bytes k
         in parseFloat_toString (toFixed_2 bytes (k ^ i)) @ '' '' @ sizes_at i))"

section \<open>Data model\<close>

record License =
  name :: string
  spdx_id :: string

record Repository =
  name :: string
  full_name :: string
  description :: "string option"
  html_url :: string
  clone_url :: string
  language :: "string option"
  languages_url :: string
  topics :: "string list"
  license :: "License option"
  default_branch :: string
  created_at :: string
  updated_at :: string
  stargazers_count :: nat
  forks_count :: nat
  size_kb :: nat

datatype file_type = File | Dir

record RepoFile =
  name :: string
  path :: string
  type :: file_type
  size_bytes :: "nat option"
  download_url :: "string option"

text \<open>
  \<open>languages\<close> is a \<open>Record<string, number>\<close>; it is kept as the list of its entries
  in the object's enumeration order.
\<close>

record TechnologyStack =
  languages :: "(string \<times> nat) list"
  frameworks :: "string list"
  tools :: "string list"
  databases :: "string list"
  deployment :: "string list"

section \<open>Technology detection\<close>

subsection \<open>Values read from the hosting API\<close>

text \<open>
  A value produced by \<open>JSON.parse\<close> or \<open>response.json()\<close>. An object is the list of
  its own properties in their order, each key once.
\<close>

datatype json =
    JNull
  | JBool bool
  | JNum rat
  | JStr string
  | JArr "json list"
  | JObj "(string \<times> json) list"

datatype error = Error string | SyntaxError | TypeError | InvalidCharacterError

text \<open>Truthiness of a value; \<open>None\<close> stands for \<open>undefined\<close>.\<close>

fun truthy :: "json option \<Rightarrow> bool" where
  "truthy None = False"
| "truthy (Some JNull) = False"
| "truthy (Some (JBool b)) = b"
| "truthy (Some (JNum n)) = (n \<noteq> 0)"
| "truthy (Some (JStr s)) = (s \<noteq> [])"
| "truthy (Some (JArr xs)) = True"
| "truthy (Some (JObj kvs)) = True"

text \<open>
  Reading a property \<open>v.k\<close>, for a key that is no built-in property of strings or
  arrays: reading from \<open>null\<close> raises, an object yields its own property, every other
  value yields \<open>undefined\<close>.
\<close>

fun get_prop :: "json \<Rightarrow> string \<Rightarrow> error + json option" where
  "get_prop JNull k = Inl TypeError"
| "get_prop (JObj kvs) k = Inr (map_of kvs k)"
| "get_prop v k = Inr None"

text \<open>The own enumerable properties that an object spread \<open>{...v}\<close> copies.\<close>

fun own_props :: "json option \<Rightarrow> (string \<times> json) list" where
  "own_props (Some (JObj kvs)) = kvs"
| "own_props (Some (JArr xs)) = zip (map show_nat [0..<length xs]) xs"
| "own_props (Some (JStr s)) = zip (map show_nat [0..<length s]) (map (\<lambda>c. JStr [c]) s)"
| "own_props v = []"

text \<open>\<open>{...a, ...b}[k]\<close>: a property of \<open>b\<close> overrides the one of \<open>a\<close>.\<close>

definition spread2 :: "json option \<Rightarrow> json option \<Rightarrow> string \<Rightarrow> json option" where
  "spread2 a b k = (case map_of (own_props b) k of Some v \<Rightarrow> Some v | None \<Rightarrow> map_of (own_props a) k)"

text \<open>
  The collaborators of the service: the HTTP request of \<open>fetchGitHub\<close> (it raises on a
  network failure, on a response that is not ok and on a body that is no JSON), the
  base64 decoder \<open>atob\<close> and the parser \<open>JSON.parse\<close>.
\<close>

record env =
  fetchGitHub :: "string \<Rightarrow> error + json"
  atob :: "string \<Rightarrow> error + string"
  JSON_parse :: "string \<Rightarrow> error + json"

type_synonym warning = "string \<times> error"

text \<open>
  \<open>getFileContent\<close>: the content of a file, or the empty string with a warning on the
  console when anything in the \<open>try\<close> block raises.
\<close>

definition getFileContent_try :: "env \<Rightarrow> string \<Rightarrow> string \<Rightarrow> string \<Rightarrow> error + string" where
  "getFileContent_try e owner repo p =
     (case fetchGitHub e (''/repos/'' @ owner @ ''/'' @ repo @ ''/contents/'' @ p) of
        Inl err \<Rightarrow> Inl err
      | Inr response \<Rightarrow>
          (case get_prop response ''content'' of
             Inl err \<Rightarrow> Inl err
           | Inr content \<Rightarrow>
               if truthy content then
                 (case content of
                    Some (JStr c) \<Rightarrow> atob e (filter (\<lambda>ch. ch \<noteq> CHR 0x0A) c)
                  | _ \<Rightarrow> Inl TypeError)
               else Inl (Error ''File content not available'')))"

definition getFileContent :: "env \<Rightarrow> string \<Rightarrow> string \<Rightarrow> string \<Rightarrow> string \<times> warning list" where
  "getFileContent e owner repo p =
     (case getFileContent_try e owner repo p of
        Inr s \<Rightarrow> (s, [])
      | Inl err \<Rightarrow> ([], [(''Could not fetch '' @ p @ '':'', err)]))"

subsection \<open>The detector\<close>

text \<open>
  The state of one detection pass: the four arrays the rules push to, the language map
  that is passed through, and the warnings written to the console.
\<close>

record detection = TechnologyStack +
  warnings :: "warning list"

definition push_frameworks :: "string \<Rightarrow> detection \<Rightarrow> detection" where
  "push_frameworks x s = s\<lparr>frameworks := frameworks s @ [x]\<rparr>"

definition push_tools :: "string \<Rightarrow> detection \<Rightarrow> detection" where
  "push_tools x s = s\<lparr>tools := tools s @ [x]\<rparr>"

definition push_databases :: "string \<Rightarrow> detection \<Rightarrow> detection" where
  "push_databases x s = s\<lparr>databases := databases s @ [x]\<rparr>"

definition push_deployment :: "string \<Rightarrow> detection \<Rightarrow> detection" where
  "push_deployment x s = s\<lparr>deployment := deployment s @ [x]\<rparr>"

definition console_warn :: "warning list \<Rightarrow> detection \<Rightarrow> detection" where
  "console_warn ws s = s\<lparr>warnings := warnings s @ ws\<rparr>"

text \<open>\<open>if (c) stmt\<close> and a sequence of statements, on a state.\<close>

definition if_do :: "bool \<Rightarrow> ('s \<Rightarrow> 's) \<Rightarrow> 's \<Rightarrow> 's" where
  "if_do c stmt s = (if c then stmt s else s)"

definition block :: "('s \<Rightarrow> 's) list \<Rightarrow> 's \<Rightarrow> 's" where
  "block stmts s = fold (\<lambda>stmt. stmt) stmts s"

text \<open>
  A statement that may raise returns the error, if any, with the state reached;
  \<open>try_catch\<close> runs the handler on that state.
\<close>

type_synonym stmt = "detection \<Rightarrow> error option \<times> detection"

definition try_catch :: "stmt \<Rightarrow> (error \<Rightarrow> detection \<Rightarrow> detection) \<Rightarrow> stmt" where
  "try_catch body handler s =
     (case body s of
        (Some err, s') \<Rightarrow> (None, handler err s')
      | (None, s') \<Rightarrow> (None, s'))"

definition then_do :: "stmt \<Rightarrow> stmt \<Rightarrow> stmt" where
  "then_do a b s = (case a s of (Some err, s') \<Rightarrow> (Some err, s') | (None, s') \<Rightarrow> b s')"

definition pure_stmt :: "(detection \<Rightarrow> detection) \<Rightarrow> stmt" where
  "pure_stmt f s = (None, f s)"

text \<open>The rules on the merged dependencies of \<open>package.json\<close>; \<open>dep k\<close> is \<open>allDeps[k]\<close> as a condition.\<close>

definition package_rules :: "(string \<Rightarrow> bool) \<Rightarrow> detection \<Rightarrow> detection" where
  "package_rules dep = block [
     if_do (dep ''react'') (block [
       push_frameworks ''React'',
       if_do (dep ''next'' \<or> dep ''nextjs'') (push_frameworks ''Next.js''),
       if_do (dep ''gatsby'') (push_frameworks ''Gatsby''),
       if_do (dep ''react-native'') (push_frameworks ''React Native'')]),
     if_do (dep ''vue'') (block [
       push_frameworks ''Vue.js'',
       if_do (dep ''nuxt'') (push_frameworks ''Nuxt.js'')]),
     if_do (dep ''angular'' \<or> dep ''@angular/core'') (push_frameworks ''Angular''),
     if_do (dep ''svelte'') (push_frameworks ''Svelte''),
     if_do (dep ''express'') (push_frameworks ''Express.js''),
     if_do (dep ''fastify'') (push_frameworks ''Fastify''),
     if_do (dep ''@nestjs/core'') (push_frameworks ''NestJS''),
     if_do (dep ''koa'') (push_frameworks ''Koa.js''),
     if_do (dep ''hapi'') (push_frameworks ''Hapi.js''),
     if_do (dep ''webpack'') (push_tools ''Webpack''),
     if_do (dep ''vite'') (push_tools ''Vite''),
     if_do (dep ''parcel'') (push_tools ''Parcel''),
     if_do (dep ''rollup'') (push_tools ''Rollup''),
     if_do (dep ''esbuild'') (push_tools ''ESBuild''),
     if_do (dep ''tailwindcss'') (push_tools ''Tailwind CSS''),
     if_do (dep ''bootstrap'') (push_tools ''Bootstrap''),
     if_do (dep ''@mui/material'') (push_tools ''Material-UI''),
     if_do (dep ''antd'') (push_tools ''Ant Design''),
     if_do (dep ''styled-components'') (push_tools ''Styled Components''),
     if_do (dep ''jest'') (push_tools ''Jest''),
     if_do (dep ''vitest'') (push_tools ''Vitest''),
     if_do (dep ''mocha'') (push_tools ''Mocha''),
     if_do (dep ''cypress'') (push_tools ''Cypress''),
     if_do (dep ''playwright'') (push_tools ''Playwright''),
     if_do (dep ''mongoose'') (push_databases ''MongoDB''),
     if_do (dep ''prisma'') (push_databases ''Prisma''),
     if_do (dep ''sequelize'') (push_databases ''Sequelize''),
     if_do (dep ''typeorm'') (push_databases ''TypeORM''),
     if_do (dep ''mysql2'' \<or> dep ''mysql'') (push_databases ''MySQL''),
     if_do (dep ''pg'') (push_databases ''PostgreSQL''),
     if_do (dep ''sqlite3'') (push_databases ''SQLite''),
     if_do (dep ''redis'') (push_databases ''Redis''),
     if_do (dep ''redux'') (push_tools ''Redux''),
     if_do (dep ''zustand'') (push_tools ''Zustand''),
     if_do (dep ''mobx'') (push_tools ''MobX''),
     if_do (dep ''typescript'') (push_tools ''TypeScript'')]"

text \<open>The body of the \<open>try\<close> block on \<open>package.json\<close>.\<close>

definition package_json_try :: "env \<Rightarrow> string \<Rightarrow> string \<Rightarrow> stmt" where
  "package_json_try e owner repo s =
     (let (packageContent, ws) = getFileContent e owner repo ''package.json'';
          s1 = console_warn ws s
      in if truthy_string packageContent then
           (case JSON_parse e packageContent of
              Inl err \<Rightarrow> (Some err, s1)
            | Inr pkg \<Rightarrow>
                (case get_prop pkg ''dependencies'' of
                   Inl err \<Rightarrow> (Some err, s1)
                 | Inr dependencies \<Rightarrow>
                     (case get_prop pkg ''devDependencies'' of
                        Inl err \<Rightarrow> (Some err, s1)
                      | Inr devDependencies \<Rightarrow>
                          (let allDeps = spread2 dependencies devDependencies
                           in (None, package_rules (\<lambda>k. truthy (allDeps k)) s1)))))
         else (None, s1))"

definition package_json_block :: "env \<Rightarrow> string \<Rightarrow> string \<Rightarrow> string list \<Rightarrow> stmt" where
  "package_json_block e owner repo fileNames s =
     (if ''package.json'' \<in> set fileNames then
        try_catch (package_json_try e owner repo)
          (\<lambda>err. console_warn [(''Could not parse package.json:'', err)]) s
      else (None, s))"

text \<open>The Python rules: \<open>pip\<close> by presence, the rest by substrings of \<open>requirements.txt\<close>.\<close>

definition python_rules :: "string \<Rightarrow> detection \<Rightarrow> detection" where
  "python_rules pythonDeps = block [
     if_do (includes_str pythonDeps ''django'') (push_frameworks ''Django''),
     if_do (includes_str pythonDeps ''flask'') (push_frameworks ''Flask''),
     if_do (includes_str pythonDeps ''fastapi'') (push_frameworks ''FastAPI''),
     if_do (includes_str pythonDeps ''streamlit'') (push_frameworks ''Streamlit''),
     if_do (includes_str pythonDeps ''pandas'') (push_tools ''Pandas''),
     if_do (includes_str pythonDeps ''numpy'') (push_tools ''NumPy''),
     if_do (includes_str pythonDeps ''tensorflow'') (push_frameworks ''TensorFlow''),
     if_do (includes_str pythonDeps ''pytorch'') (push_frameworks ''PyTorch'')]"

definition python_try :: "env \<Rightarrow> string \<Rightarrow> string \<Rightarrow> string list \<Rightarrow> stmt" where
  "python_try e owner repo fileNames s =
     (let (pythonDeps, ws) =
            (if ''requirements.txt'' \<in> set fileNames
             then getFileContent e owner repo ''requirements.txt''
             else ([], []))
      in (None, python_rules pythonDeps (console_warn ws s)))"

definition python_block :: "env \<Rightarrow> string \<Rightarrow> string \<Rightarrow> string list \<Rightarrow> stmt" where
  "python_block e owner repo fileNames s =
     (if ''requirements.txt'' \<in> set fileNames \<or> ''pyproject.toml'' \<in> set fileNames
         \<or> ''pipfile'' \<in> set fileNames then
        then_do (pure_stmt (push_tools ''pip''))
          (try_catch (python_try e owner repo fileNames)
             (\<lambda>err. console_warn [(''Could not analyze Python dependencies:'', err)])) s
      else (None, s))"

text \<open>The rules that look only at the names and paths of the listing.\<close>

definition presence_rules :: "RepoFile list \<Rightarrow> string list \<Rightarrow> detection \<Rightarrow> detection" where
  "presence_rules files fileNames = block [
     if_do (''pom.xml'' \<in> set fileNames) (block [push_tools ''Maven'', push_frameworks ''Java'']),
     if_do (''build.gradle'' \<in> set fileNames) (block [push_tools ''Gradle'', push_frameworks ''Java'']),
     if_do (list_ex (\<lambda>f. endsWith (name f) ''.csproj'' \<or> endsWith (name f) ''.sln'') files)
       (push_frameworks ''.NET''),
     if_do (''go.mod'' \<in> set fileNames) (push_frameworks ''Go''),
     if_do (''cargo.toml'' \<in> set fileNames) (block [push_frameworks ''Rust'', push_tools ''Cargo'']),
     if_do (''dockerfile'' \<in> set fileNames \<or> ''docker-compose.yml'' \<in> set fileNames
           \<or> ''docker-compose.yaml'' \<in> set fileNames) (push_deployment ''Docker''),
     if_do (list_ex (\<lambda>f. includes_str (path f) ''.github/workflows'') files)
       (push_deployment ''GitHub Actions''),
     if_do (''.travis.yml'' \<in> set fileNames) (push_deployment ''Travis CI''),
     if_do (''jenkinsfile'' \<in> set fileNames) (push_deployment ''Jenkins''),
     if_do (''.gitlab-ci.yml'' \<in> set fileNames) (push_deployment ''GitLab CI''),
     if_do (''tsconfig.json'' \<in> set fileNames) (push_tools ''TypeScript''),
     if_do (''tailwind.config.js'' \<in> set fileNames \<or> ''tailwind.config.ts'' \<in> set fileNames)
       (push_tools ''Tailwind CSS''),
     if_do (''next.config.js'' \<in> set fileNames) (push_frameworks ''Next.js''),
     if_do (''nuxt.config.js'' \<in> set fileNames) (push_frameworks ''Nuxt.js''),
     if_do (''vue.config.js'' \<in> set fileNames) (push_frameworks ''Vue.js''),
     if_do (''angular.json'' \<in> set fileNames) (push_frameworks ''Angular''),
     if_do (list_ex (\<lambda>f. endsWith (name f) ''.sql'') files) (push_databases ''SQL''),
     if_do (''schema.prisma'' \<in> set fileNames) (push_databases ''Prisma'')]"

text \<open>
  \<open>[...new Set(xs)]\<close>: a set keeps its elements in insertion order and ignores the
  insertion of an element it has.
\<close>

definition Set_add :: "'a list \<Rightarrow> 'a \<Rightarrow> 'a list" where
  "Set_add s x = (if x \<in> set s then s else s @ [x])"

definition new_Set :: "'a list \<Rightarrow> 'a list" where
  "new_Set xs = foldl Set_add [] xs"

text \<open>The arrays as they are before the duplicates are removed.\<close>

definition detect_rules :: "host \<Rightarrow> env \<Rightarrow> string \<Rightarrow> string \<Rightarrow> RepoFile list \<Rightarrow> (string \<times> nat) list \<Rightarrow> error option \<times> detection" where
  "detect_rules h e owner repo files langs =
     (let fileNames = map (\<lambda>f. toLowerCase h (name f)) files;
          filePaths = map (\<lambda>f. toLowerCase h (path f)) files
      in then_do (package_json_block e owner repo fileNames)
           (then_do (python_block e owner repo fileNames)
              (pure_stmt (presence_rules files fileNames)))
           \<lparr>languages = langs, frameworks = [], tools = [], databases = [], deployment = [],
            warnings = []\<rparr>)"

text \<open>\<open>detectTechnologies\<close>: the profile, or the error that reaches the caller.\<close>

definition detectTechnologies :: "host \<Rightarrow> env \<Rightarrow> string \<Rightarrow> string \<Rightarrow> RepoFile list \<Rightarrow> (string \<times> nat) list \<Rightarrow> error + TechnologyStack" where
  "detectTechnologies h e owner repo files langs =
     (case detect_rules h e owner repo files langs of
        (Some err, s) \<Rightarrow> Inl err
      | (None, s) \<Rightarrow>
          Inr \<lparr>languages = languages s,
               frameworks = new_Set (frameworks s),
               tools = new_Set (tools s),
               databases = new_Set (databases s),
               deployment = new_Set (deployment s)\<rparr>)"

subsection \<open>Notions used to state the detector's properties\<close>

definition first_index :: "'a list \<Rightarrow> 'a \<Rightarrow> nat" where
  "first_index xs x = length (takeWhile (\<lambda>y. y \<noteq> x) xs)"

definition deduplicated :: "'a list \<Rightarrow> 'a list \<Rightarrow> bool" where
  "deduplicated raw out =
     (distinct out \<and> set out = set raw
      \<and> sorted_wrt (\<lambda>x y. first_index raw x < first_index raw y) out
      \<and> new_Set out = out)"

definition manifest_names :: "string list" where
  "manifest_names =
     [''package.json'', ''requirements.txt'', ''pyproject.toml'', ''pipfile'', ''pom.xml'',
      ''build.gradle'', ''go.mod'', ''cargo.toml'', ''dockerfile'', ''docker-compose.yml'',
      ''docker-compose.yaml'', ''.travis.yml'', ''jenkinsfile'', ''.gitlab-ci.yml'',
      ''tsconfig.json'', ''tailwind.config.js'', ''tailwind.config.ts'', ''next.config.js'',
      ''nuxt.config.js'', ''vue.config.js'', ''angular.json'', ''schema.prisma'']"

definition recognized :: "host \<Rightarrow> RepoFile \<Rightarrow> bool" where
  "recognized h f =
     (toLowerCase h (name f) \<in> set manifest_names
      \<or> endsWith (name f) ''.csproj'' \<or> endsWith (name f) ''.sln''
      \<or> endsWith (name f) ''.sql''
      \<or> includes_str (path f) ''.github/workflows'')"

definition env_offline :: env where
  "env_offline = \<lparr>fetchGitHub = (\<lambda>url. Inl (Error ''GitHub API error: Not Found'')),
                   atob = (\<lambda>s. Inl InvalidCharacterError),
                   JSON_parse = (\<lambda>s. Inl SyntaxError)\<rparr>"

definition env_malformed :: env where
  "env_malformed = \<lparr>fetchGitHub = (\<lambda>url. Inr (JObj [(''content'', JStr ''e3s='')])),
                     atob = (\<lambda>s. Inr ''{{''),
                     JSON_parse = (\<lambda>s. Inl SyntaxError)\<rparr>"

definition file_named :: "string \<Rightarrow> RepoFile" where
  "file_named n = \<lparr>name = n, path = n, type = File, size_bytes = None, download_url = None\<rparr>"

definition dir_named :: "string \<Rightarrow> RepoFile" where
  "dir_named n = \<lparr>name = n, path = n, type = Dir, size_bytes = None, download_url = None\<rparr>"

section \<open>Document synthesis\<close>

subsection \<open>Characters outside ASCII, by their UTF-8 bytes\<close>

definition box_horizontal :: string where \<comment> \<open>U+2500 BOX DRAWINGS LIGHT HORIZONTAL\<close>
  "box_horizontal = [CHR 0xE2, CHR 0x94, CHR 0x80]"

definition box_up_right :: string where \<comment> \<open>U+2514 BOX DRAWINGS LIGHT UP AND RIGHT\<close>
  "box_up_right = [CHR 0xE2, CHR 0x94, CHR 0x94]"

definition box_vertical_right :: string where \<comment> \<open>U+251C BOX DRAWINGS LIGHT VERTICAL AND RIGHT\<close>
  "box_vertical_right = [CHR 0xE2, CHR 0x94, CHR 0x9C]"

definition glyph_gear :: string where \<comment> \<open>U+2699 GEAR\<close>
  "glyph_gear = [CHR 0xE2, CHR 0x9A, CHR 0x99]"

definition glyph_atom :: string where \<comment> \<open>U+269B ATOM SYMBOL\<close>
  "glyph_atom = [CHR 0xE2, CHR 0x9A, CHR 0x9B]"

definition glyph_high_voltage :: string where \<comment> \<open>U+26A1 HIGH VOLTAGE SIGN\<close>
  "glyph_high_voltage = [CHR 0xE2, CHR 0x9A, CHR 0xA1]"

definition glyph_sparkles :: string where \<comment> \<open>U+2728 SPARKLES\<close>
  "glyph_sparkles = [CHR 0xE2, CHR 0x9C, CHR 0xA8]"

definition glyph_heart :: string where \<comment> \<open>U+2764 HEAVY BLACK HEART\<close>
  "glyph_heart = [CHR 0xE2, CHR 0x9D, CHR 0xA4]"

definition glyph_star :: string where \<comment> \<open>U+2B50 WHITE MEDIUM STAR\<close>
  "glyph_star = [CHR 0xE2, CHR 0xAD, CHR 0x90]"

definition variation_selector_16 :: string where \<comment> \<open>U+FE0F VARIATION SELECTOR-16\<close>
  "variation_selector_16 = [CHR 0xEF, CHR 0xB8, CHR 0x8F]"

definition glyph_palette :: string where \<comment> \<open>U+1F3A8 ARTIST PALETTE\<close>
  "glyph_palette = [CHR 0xF0, CHR 0x9F, CHR 0x8E, CHR 0xA8]"

definition glyph_bug :: string where \<comment> \<open>U+1F41B BUG\<close>
  "glyph_bug = [CHR 0xF0, CHR 0x9F, CHR 0x90, CHR 0x9B]"

definition glyph_whale :: string where \<comment> \<open>U+1F433 SPOUTING WHALE\<close>
  "glyph_whale = [CHR 0xF0, CHR 0x9F, CHR 0x90, CHR 0xB3]"

definition glyph_light_bulb :: string where \<comment> \<open>U+1F4A1 ELECTRIC LIGHT BULB\<close>
  "glyph_light_bulb = [CHR 0xF0, CHR 0x9F, CHR 0x92, CHR 0xA1]"

definition glyph_file_folder :: string where \<comment> \<open>U+1F4C1 FILE FOLDER\<close>
  "glyph_file_folder = [CHR 0xF0, CHR 0x9F, CHR 0x93, CHR 0x81]"

definition glyph_page :: string where \<comment> \<open>U+1F4C4 PAGE FACING UP\<close>
  "glyph_page = [CHR 0xF0, CHR 0x9F, CHR 0x93, CHR 0x84]"

definition glyph_clipboard :: string where \<comment> \<open>U+1F4CB CLIPBOARD\<close>
  "glyph_clipboard = [CHR 0xF0, CHR 0x9F, CHR 0x93, CHR 0x8B]"

definition glyph_open_book :: string where \<comment> \<open>U+1F4D6 OPEN BOOK\<close>
  "glyph_open_book = [CHR 0xF0, CHR 0x9F, CHR 0x93, CHR 0x96]"

definition glyph_blue_book :: string where \<comment> \<open>U+1F4D8 BLUE BOOK\<close>
  "glyph_blue_book = [CHR 0xF0, CHR 0x9F, CHR 0x93, CHR 0x98]"

definition glyph_books :: string where \<comment> \<open>U+1F4DA BOOKS\<close>
  "glyph_books = [CHR 0xF0, CHR 0x9F, CHR 0x93, CHR 0x9A]"

definition glyph_scroll :: string where \<comment> \<open>U+1F4DC SCROLL\<close>
  "glyph_scroll = [CHR 0xF0, CHR 0x9F, CHR 0x93, CHR 0x9C]"

definition glyph_telephone :: string where \<comment> \<open>U+1F4DE TELEPHONE RECEIVER\<close>
  "glyph_telephone = [CHR 0xF0, CHR 0x9F, CHR 0x93, CHR 0x9E]"

definition glyph_satellite_antenna :: string where \<comment> \<open>U+1F4E1 SATELLITE ANTENNA\<close>
  "glyph_satellite_antenna = [CHR 0xF0, CHR 0x9F, CHR 0x93, CHR 0xA1]"

definition glyph_e_mail :: string where \<comment> \<open>U+1F4E7 E-MAIL SYMBOL\<close>
  "glyph_e_mail = [CHR 0xF0, CHR 0x9F, CHR 0x93, CHR 0xA7]"

definition glyph_mobile_phone :: string where \<comment> \<open>U+1F4F1 MOBILE PHONE\<close>
  "glyph_mobile_phone = [CHR 0xF0, CHR 0x9F, CHR 0x93, CHR 0xB1]"

definition glyph_arrows_circle :: string where \<comment> \<open>U+1F504 ANTICLOCKWISE DOWNWARDS AND UPWARDS OPEN CIRCLE ARROWS\<close>
  "glyph_arrows_circle = [CHR 0xF0, CHR 0x9F, CHR 0x94, CHR 0x84]"

definition glyph_lock :: string where \<comment> \<open>U+1F512 LOCK\<close>
  "glyph_lock = [CHR 0xF0, CHR 0x9F, CHR 0x94, CHR 0x92]"

definition glyph_wrench :: string where \<comment> \<open>U+1F527 WRENCH\<close>
  "glyph_wrench = [CHR 0xF0, CHR 0x9F, CHR 0x94, CHR 0xA7]"

definition glyph_file_cabinet :: string where \<comment> \<open>U+1F5C4 FILE CABINET\<close>
  "glyph_file_cabinet = [CHR 0xF0, CHR 0x9F, CHR 0x97, CHR 0x84]"

definition glyph_rocket :: string where \<comment> \<open>U+1F680 ROCKET\<close>
  "glyph_rocket = [CHR 0xF0, CHR 0x9F, CHR 0x9A, CHR 0x80]"

definition glyph_hammer_and_wrench :: string where \<comment> \<open>U+1F6E0 HAMMER AND WRENCH\<close>
  "glyph_hammer_and_wrench = [CHR 0xF0, CHR 0x9F, CHR 0x9B, CHR 0xA0]"

definition glyph_handshake :: string where \<comment> \<open>U+1F91D HANDSHAKE\<close>
  "glyph_handshake = [CHR 0xF0, CHR 0x9F, CHR 0xA4, CHR 0x9D]"

definition glyph_test_tube :: string where \<comment> \<open>U+1F9EA TEST TUBE\<close>
  "glyph_test_tube = [CHR 0xF0, CHR 0x9F, CHR 0xA7, CHR 0xAA]"

subsection \<open>Arrays and trimming\<close>

text \<open>
  \<open>xs.sort(cmp)\<close> for a comparator that is consistent: the elements in ascending order
  of \<open>cmp\<close>, elements that compare equal in their former order.
\<close>

fun insert_sorted :: "('a \<Rightarrow> 'a \<Rightarrow> int) \<Rightarrow> 'a \<Rightarrow> 'a list \<Rightarrow> 'a list" where
  "insert_sorted cmp x [] = [x]"
| "insert_sorted cmp x (y # ys) = (if cmp x y \<le> 0 then x # y # ys else y # insert_sorted cmp x ys)"

definition sort_by :: "('a \<Rightarrow> 'a \<Rightarrow> int) \<Rightarrow> 'a list \<Rightarrow> 'a list" where
  "sort_by cmp xs = foldr (insert_sorted cmp) xs []"

definition push :: "'a \<Rightarrow> 'a list \<Rightarrow> 'a list" where
  "push x xs = xs @ [x]"

text \<open>
  \<open>s.trim()\<close>: white space and line terminators are removed at both ends; each is
  given by its UTF-8 bytes.
\<close>

definition white_space :: "string list" where
  "white_space =
     [[CHR 0x09], [CHR 0x0A], [CHR 0x0B], [CHR 0x0C], [CHR 0x0D], [CHR 0x20],
      [CHR 0xC2, CHR 0xA0], [CHR 0xE1, CHR 0x9A, CHR 0x80],
      [CHR 0xE2, CHR 0x80, CHR 0x80], [CHR 0xE2, CHR 0x80, CHR 0x81],
      [CHR 0xE2, CHR 0x80, CHR 0x82], [CHR 0xE2, CHR 0x80, CHR 0x83],
      [CHR 0xE2, CHR 0x80, CHR 0x84], [CHR 0xE2, CHR 0x80, CHR 0x85],
      [CHR 0xE2, CHR 0x80, CHR 0x86], [CHR 0xE2, CHR 0x80, CHR 0x87],
      [CHR 0xE2, CHR 0x80, CHR 0x88], [CHR 0xE2, CHR 0x80, CHR 0x89],
      [CHR 0xE2, CHR 0x80, CHR 0x8A], [CHR 0xE2, CHR 0x80, CHR 0xA8],
      [CHR 0xE2, CHR 0x80, CHR 0xA9], [CHR 0xE2, CHR 0x80, CHR 0xAF],
      [CHR 0xE2, CHR 0x81, CHR 0x9F], [CHR 0xE3, CHR 0x80, CHR 0x80],
      [CHR 0xEF, CHR 0xBB, CHR 0xBF]]"

function trimStart :: "string \<Rightarrow> string" where
  "trimStart s =
     (case find (\<lambda>w. prefix w s) white_space of
        None \<Rightarrow> s
      | Some w \<Rightarrow> trimStart (drop (length w) s))"
  by pat_completeness auto
termination
proof (relation "measure length")
  show "wf (measure length)"
    by simp
next
  fix s :: string and w
  assume "find (\<lambda>w. prefix w s) white_space = Some w"
  then have "w \<in> set white_space" and "prefix w s"
    by (auto simp: find_Some_iff)
  then have "w \<noteq> []" and "length w \<le> length s"
    by (auto simp: white_space_def prefix_length_le)
  then show "(drop (length w) s, s) \<in> measure length"
    by (cases w) auto
qed

function trimEnd :: "string \<Rightarrow> string" where
  "trimEnd s =
     (case find (\<lambda>w. suffix w s) white_space of
        None \<Rightarrow> s
      | Some w \<Rightarrow> trimEnd (take (length s - length w) s))"
  by pat_completeness auto
termination
proof (relation "measure length")
  show "wf (measure length)"
    by simp
next
  fix s :: string and w
  assume "find (\<lambda>w. suffix w s) white_space = Some w"
  then have "w \<in> set white_space" and "suffix w s"
    by (auto simp: find_Some_iff)
  then have "w \<noteq> []" and "length w \<le> length s"
    by (auto simp: white_space_def suffix_length_le)
  then show "(take (length s - length w) s, s) \<in> measure length"
    by (cases w) auto
qed

declare trimStart.simps [simp del] trimEnd.simps [simp del]

definition trim :: "string \<Rightarrow> string" where
  "trim s = trimEnd (trimStart s)"

subsection \<open>Header and badges\<close>

text \<open>\<open>\w\<close> of a regular expression without flags.\<close>

definition is_word_char :: "char \<Rightarrow> bool" where
  "is_word_char c =
     (c \<in> set ''ABCDEFGHIJKLMNOPQRSTUVWXYZabcdefghijklmnopqrstuvwxyz0123456789_'')"

text \<open>\<open>s.replace(/c/g, d)\<close> for single characters \<open>c\<close> and \<open>d\<close>.\<close>

definition replace_char :: "char \<Rightarrow> char \<Rightarrow> string \<Rightarrow> string" where
  "replace_char c d s = map (\<lambda>x. if x = c then d else x) s"

text \<open>
  \<open>s.replace(/\b\w/g, l => l.toUpperCase())\<close>: a word character that no word
  character precedes becomes upper case. The flag says whether the character before is
  a word character.
\<close>

fun upper_at_word_starts :: "bool \<Rightarrow> string \<Rightarrow> string" where
  "upper_at_word_starts after_word [] = []"
| "upper_at_word_starts after_word (c # cs) =
     (if is_word_char c \<and> \<not> after_word then toUpperCase_char c else c)
       # upper_at_word_starts (is_word_char c) cs"

definition generateHeader :: "Repository \<Rightarrow> string" where
  \<open>generateHeader repository =
     (let title = upper_at_word_starts False
            (replace_char CHR ''_'' CHR '' '' (replace_char CHR ''-'' CHR '' '' (Repository.name repository)))
      in ''# '' @ title @ ''\<newline>'' @
         ''\<newline>'' @
         or_else (Repository.description repository)
          ''A modern application built with the latest technologies.'')\<close>

text \<open>
  \<open>colors[language] || '000000'\<close> and \<open>badges[framework] || null\<close>: a key of the table
  yields its entry; any other key yields what every object inherits under that name, if
  anything, as the text it has in a template or in \<open>join\<close>.
\<close>

definition language_colors :: "(string \<times> string) list" where
  "language_colors =
     [(''JavaScript'', ''F7DF1E''), (''TypeScript'', ''3178C6''), (''Python'', ''3776AB''),
      (''Java'', ''ED8B00''), (''Go'', ''00ADD8''), (''Rust'', ''000000''), (''C++'', ''00599C''),
      (''C#'', ''239120''), (''PHP'', ''777BB4''), (''Ruby'', ''CC342D''), (''Swift'', ''FA7343''),
      (''Kotlin'', ''0095D5'')]"

definition getLanguageColor :: "host \<Rightarrow> string \<Rightarrow> string" where
  "getLanguageColor h lang =
     (case map_of language_colors lang of
        Some c \<Rightarrow> c
      | None \<Rightarrow> (case inherited_property h lang of Some v \<Rightarrow> v | None \<Rightarrow> ''000000''))"

definition framework_badges :: "(string \<times> string) list" where
  \<open>framework_badges =
     [(''React'',
       ''[![React](https://img.shields.io/badge/React-20232A?style=for-the-badge&logo=react&logoColor=61DAFB)]()''),
      (''Next.js'',
       ''[![Next.js](https://img.shields.io/badge/Next.js-000000?style=for-the-badge&logo=next.js&logoColor=white)]()''),
      (''Vue.js'',
       ''[![Vue.js](https://img.shields.io/badge/Vue.js-35495E?style=for-the-badge&logo=vue.js&logoColor=4FC08D)]()''),
      (''Angular'',
       ''[![Angular](https://img.shields.io/badge/Angular-DD0031?style=for-the-badge&logo=angular&logoColor=white)]()''),
      (''Express.js'',
       ''[![Express.js](https://img.shields.io/badge/Express.js-404D59?style=for-the-badge)]()''),
      (''Django'',
       ''[![Django](https://img.shields.io/badge/Django-092E20?style=for-the-badge&logo=django&logoColor=white)]()''),
      (''Flask'',
       ''[![Flask](https://img.shields.io/badge/Flask-000000?style=for-the-badge&logo=flask&logoColor=white)]()''),
      (''FastAPI'',
       ''[![FastAPI](https://img.shields.io/badge/FastAPI-005571?style=for-the-badge&logo=fastapi)]()'')]\<close>


definition getFrameworkBadge :: "host \<Rightarrow> string \<Rightarrow> string option" where
  "getFrameworkBadge h framework =
     (case map_of framework_badges framework of
        Some badge \<Rightarrow> Some badge
      | None \<Rightarrow> inherited_property h framework)"

text \<open>The array \<open>badges\<close> of \<open>generateBadges\<close>, and the function.\<close>

definition badges_array :: "host \<Rightarrow> Repository \<Rightarrow> TechnologyStack \<Rightarrow> string list" where
  \<open>badges_array h repository techStack =
     [''[![Stars](https://img.shields.io/github/stars/'' @ full_name repository @
      ''?style=for-the-badge&logo=github)]('' @ html_url repository @ ''/stargazers)'',
      ''[![Forks](https://img.shields.io/github/forks/'' @ full_name repository @
      ''?style=for-the-badge&logo=github)]('' @ html_url repository @ ''/network/members)'',
      ''[![Issues](https://img.shields.io/github/issues/'' @ full_name repository @
      ''?style=for-the-badge&logo=github)]('' @ html_url repository @ ''/issues)'']
     @ (case language repository of
          None \<Rightarrow> []
        | Some lang \<Rightarrow>
            if truthy_string lang then
              (let color = getLanguageColor h lang
               in [''[!['' @ lang @ ''](https://img.shields.io/badge/'' @ lang @ ''-'' @ color @
                    ''?style=for-the-badge&logo='' @ toLowerCase h lang @ '')]()''])
            else [])
     @ concat (map (\<lambda>framework.
          case getFrameworkBadge h framework of None \<Rightarrow> [] | Some badge \<Rightarrow> [badge])
          (frameworks techStack))
     @ (case license repository of
          None \<Rightarrow> []
        | Some lic \<Rightarrow>
            [''[![License](https://img.shields.io/badge/License-'' @ spdx_id lic @
             ''-green?style=for-the-badge)](LICENSE)''])\<close>

definition generateBadges :: "host \<Rightarrow> Repository \<Rightarrow> TechnologyStack \<Rightarrow> string" where
  "generateBadges h repository techStack = join ''\<newline>'' (badges_array h repository techStack)"

subsection \<open>Description\<close>

definition detectProjectType :: "host \<Rightarrow> TechnologyStack \<Rightarrow> RepoFile list \<Rightarrow> string option" where
  "detectProjectType h techStack files =
     (let fileNames = map (\<lambda>f. toLowerCase h (name f)) files
      in if ''React'' \<in> set (frameworks techStack) then
           (if ''Next.js'' \<in> set (frameworks techStack) then Some ''Next.js Web Application''
            else Some ''React Web Application'')
         else if ''Vue.js'' \<in> set (frameworks techStack) then
           (if ''Nuxt.js'' \<in> set (frameworks techStack) then Some ''Nuxt.js Web Application''
            else Some ''Vue.js Web Application'')
         else if ''Angular'' \<in> set (frameworks techStack) then Some ''Angular Web Application''
         else if ''Django'' \<in> set (frameworks techStack) then Some ''Django Web Application''
         else if ''Flask'' \<in> set (frameworks techStack) then Some ''Flask Web Application''
         else if ''Express.js'' \<in> set (frameworks techStack) then Some ''Node.js Backend API''
         else if ''FastAPI'' \<in> set (frameworks techStack) then Some ''FastAPI Backend API''
         else if ''package.json'' \<in> set fileNames then Some ''Node.js Application''
         else if ''requirements.txt'' \<in> set fileNames then Some ''Python Application''
         else if ''pom.xml'' \<in> set fileNames then Some ''Java Application''
         else if ''cargo.toml'' \<in> set fileNames then Some ''Rust Application''
         else if ''go.mod'' \<in> set fileNames then Some ''Go Application''
         else None)"

definition generateDescription :: "host \<Rightarrow> Repository \<Rightarrow> TechnologyStack \<Rightarrow> RepoFile list \<Rightarrow> string" where
  \<open>generateDescription h repository techStack files =
     (let description =
            ''## '' @ glyph_clipboard @ '' About\<newline>'' @
            ''\<newline>'' @
            or_else (Repository.description repository)
              ''This project showcases modern development practices and technologies.'' @
            ''\<newline>'' @
            ''\<newline>'';
          projectType = detectProjectType h techStack files;
          description =
            (case projectType of
               None \<Rightarrow> description
             | Some t \<Rightarrow>
                 if truthy_string t then
                   description @ ''**Project Type:** '' @ t @ ''\<newline>'' @
                                 ''\<newline>''
                 else description);
          description = description @
            ''**Created:** '' @ toLocaleDateString h (created_at repository) @ ''\<newline>'';
          description = description @
            ''**Last Updated:** '' @ toLocaleDateString h (updated_at repository) @
            ''\<newline>'';
          description = description @
            ''**Repository Size:** '' @ formatBytes h (size_kb repository * 1024)
      in description)\<close>

subsection \<open>Conditions shared by several sections\<close>

definition shouldIncludeApiDocs :: "host \<Rightarrow> TechnologyStack \<Rightarrow> RepoFile list \<Rightarrow> bool" where
  "shouldIncludeApiDocs h techStack files =
     (let hasApi = list_ex (\<lambda>fw.
            includes_str fw ''Express'' \<or> includes_str fw ''Fastify'' \<or> includes_str fw ''NestJS''
            \<or> includes_str fw ''Django'' \<or> includes_str fw ''Flask'' \<or> includes_str fw ''FastAPI'')
            (frameworks techStack);
          hasApiFiles = list_ex (\<lambda>f.
            includes_str (toLowerCase h (name f)) ''api''
            \<or> includes_str (toLowerCase h (path f)) ''routes''
            \<or> includes_str (toLowerCase h (path f)) ''controllers''
            \<or> includes_str (toLowerCase h (path f)) ''endpoints'') files
      in hasApi \<or> hasApiFiles)"

definition hasPackageJson :: "host \<Rightarrow> RepoFile list \<Rightarrow> bool" where
  "hasPackageJson h files = list_ex (\<lambda>f. toLowerCase h (name f) = ''package.json'') files"

subsection \<open>Table of contents\<close>

definition generateTableOfContents :: "host \<Rightarrow> TechnologyStack \<Rightarrow> RepoFile list \<Rightarrow> string" where
  \<open>generateTableOfContents h techStack files =
     (let sections =
            [''- [About](#-about)'',
             ''- [Features](#-features)'',
             ''- [Technology Stack](#-technology-stack)'',
             ''- [Installation](#-installation)'',
             ''- [Usage](#-usage)'',
             ''- [Project Structure](#-project-structure)''];
          sections = if_do (shouldIncludeApiDocs h techStack files)
            (push ''- [API Documentation](#-api-documentation)'') sections;
          sections = if_do (hasPackageJson h files)
            (push ''- [Available Scripts](#-available-scripts)'') sections;
          sections = sections @
            [''- [Contributing](#-contributing)'',
             ''- [License](#-license)'',
             ''- [Contact](#-contact)'']
      in ''## '' @ glyph_books @ '' Table of Contents\<newline>'' @
         ''\<newline>'' @
         join ''\<newline>'' sections)\<close>

subsection \<open>Features\<close>

text \<open>The array \<open>features\<close> before the default features are considered.\<close>

definition derived_features :: "host \<Rightarrow> TechnologyStack \<Rightarrow> RepoFile list \<Rightarrow> string list" where
  \<open>derived_features h techStack files =
     (let fileNames = map (\<lambda>f. toLowerCase h (name f)) files
      in block [
           if_do (''React'' \<in> set (frameworks techStack)) (block [
             push (glyph_atom @ variation_selector_16 @
                   '' Built with React for dynamic user interfaces''),
             if_do (''TypeScript'' \<in> set (tools techStack))
               (push (glyph_blue_book @ '' Full TypeScript support for type safety''))]),
           if_do (''Next.js'' \<in> set (frameworks techStack)) (block [
             push (glyph_rocket @ '' Server-side rendering with Next.js''),
             push (glyph_mobile_phone @ '' Optimized for performance and SEO'')]),
           if_do (''Tailwind CSS'' \<in> set (tools techStack))
             (push (glyph_palette @ '' Responsive design with Tailwind CSS'')),
           if_do (''Express.js'' \<in> set (frameworks techStack))
             (push (glyph_wrench @ '' RESTful API with Express.js'')),
           if_do (length (databases techStack) > 0)
             (push (glyph_file_cabinet @ variation_selector_16 @ '' Database integration with '' @
                   join '', '' (databases techStack))),
           if_do (''dockerfile'' \<in> set fileNames)
             (push (glyph_whale @ '' Docker containerization for easy deployment'')),
           if_do (list_ex (\<lambda>f. includes_str (path f) ''.github/workflows'') files)
             (push (glyph_arrows_circle @ '' Automated CI/CD with GitHub Actions'')),
           if_do (list_ex (\<lambda>name. includes_str name ''test'' \<or> includes_str name ''spec'') fileNames)
             (push (glyph_test_tube @ '' Comprehensive testing suite'')),
           if_do (''.env.example'' \<in> set fileNames)
             (push (glyph_gear @ variation_selector_16 @ '' Environment-based configuration''))] [])\<close>

definition default_features :: "string list" where
  \<open>default_features =
     [glyph_sparkles @ '' Modern and clean architecture'',
      glyph_high_voltage @ '' Optimized for performance'',
      glyph_lock @ '' Secure coding practices'',
      glyph_mobile_phone @ '' Responsive and user-friendly design'']\<close>

definition features_array :: "host \<Rightarrow> TechnologyStack \<Rightarrow> RepoFile list \<Rightarrow> string list" where
  "features_array h techStack files =
     (let features = derived_features h techStack files
      in if length features = 0 then features @ default_features else features)"

definition generateFeatures :: "host \<Rightarrow> Repository \<Rightarrow> TechnologyStack \<Rightarrow> RepoFile list \<Rightarrow> string" where
  \<open>generateFeatures h repository techStack files =
     ''## '' @ glyph_sparkles @ '' Features\<newline>'' @
     ''\<newline>'' @
     join ''\<newline>'' (map (\<lambda>feature. feature) (features_array h techStack files))\<close>


subsection \<open>Technology stack\<close>

definition generateTechStack :: "host \<Rightarrow> TechnologyStack \<Rightarrow> string" where
  \<open>generateTechStack h techStack =
     (let sections = [];
          sections = if_do (length (languages techStack) > 0)
            (\<lambda>sections.
               let total = foldl (\<lambda>a b. a + b) 0 (map snd (languages techStack));
                   languageList = join ''\<newline>''
                     (map (\<lambda>(lang, bytes).
                        let percentage = host.percentage h bytes total
                        in ''- **'' @ lang @ ''** ('' @ percentage @ ''%)'')
                      (sort_by (\<lambda>(ka, a) (kb, b). int b - int a) (languages techStack)))
               in push (''### Programming Languages\<newline>'' @
                        languageList) sections) sections;
          sections = if_do (length (frameworks techStack) > 0)
            (\<lambda>sections.
               let frameworkList = join ''\<newline>''
                     (map (\<lambda>fw. ''- **'' @ fw @ ''**'') (frameworks techStack))
               in push (''### Frameworks & Libraries\<newline>'' @
                        frameworkList) sections) sections;
          sections = if_do (length (tools techStack) > 0)
            (\<lambda>sections.
               let toolsList = join ''\<newline>''
                     (map (\<lambda>tool. ''- **'' @ tool @ ''**'') (tools techStack))
               in push (''### Development Tools\<newline>'' @
                        toolsList) sections) sections;
          sections = if_do (length (databases techStack) > 0)
            (\<lambda>sections.
               let dbList = join ''\<newline>''
                     (map (\<lambda>db. ''- **'' @ db @ ''**'') (databases techStack))
               in push (''### Databases & Storage\<newline>'' @
                        dbList) sections) sections;
          sections = if_do (length (deployment techStack) > 0)
            (\<lambda>sections.
               let deployList = join ''\<newline>''
                     (map (\<lambda>deploy. ''- **'' @ deploy @ ''**'') (deployment techStack))
               in push (''### Deployment & DevOps\<newline>'' @
                        deployList) sections) sections
      in ''## '' @ glyph_hammer_and_wrench @ '' Technology Stack\<newline>'' @
         ''\<newline>'' @
         join ''\<newline>\<newline>'' sections)\<close>

subsection \<open>Installation and usage\<close>

definition getCloneUrl :: "string \<Rightarrow> string" where
  "getCloneUrl placeholder = placeholder"

definition getRepoName :: "string \<Rightarrow> string" where
  "getRepoName placeholder = placeholder"

text \<open>The four values that \<open>installSteps\<close> is assigned, one in each branch.\<close>

definition installSteps_node :: "string \<Rightarrow> string" where
  \<open>installSteps_node packageManager =
     ''### Prerequisites\<newline>'' @
     ''- Node.js (version 16 or higher)\<newline>'' @
     ''- '' @ packageManager @ '' package manager\<newline>'' @
     ''\<newline>'' @
     ''### Installation Steps\<newline>'' @
     ''\<newline>'' @
     ''1. **Clone the repository**\<newline>'' @
     ''   ```bash\<newline>'' @
     ''   git clone '' @ getCloneUrl ''REPO_URL'' @ ''\<newline>'' @
     ''   cd '' @ getRepoName ''REPO_NAME'' @ ''\<newline>'' @
     ''   ```\<newline>'' @
     ''\<newline>'' @
     ''2. **Install dependencies**\<newline>'' @
     ''   ```bash\<newline>'' @
     ''   '' @ packageManager @ '' install\<newline>'' @
     ''   ```\<newline>'' @
     ''\<newline>'' @
     ''3. **Set up environment variables**\<newline>'' @
     ''   ```bash\<newline>'' @
     ''   cp .env.example .env\<newline>'' @
     ''   # Edit .env with your configuration\<newline>'' @
     ''   ```\<newline>'' @
     ''\<newline>'' @
     ''4. **Start the development server**\<newline>'' @
     ''   ```bash\<newline>'' @
     ''   '' @ packageManager @ '' run dev\<newline>'' @
     ''   ```''\<close>

definition installSteps_python :: string where
  \<open>installSteps_python =
     ''### Prerequisites\<newline>'' @
     ''- Python 3.8 or higher\<newline>'' @
     ''- pip package manager\<newline>'' @
     ''\<newline>'' @
     ''### Installation Steps\<newline>'' @
     ''\<newline>'' @
     ''1. **Clone the repository**\<newline>'' @
     ''   ```bash\<newline>'' @
     ''   git clone '' @ getCloneUrl ''REPO_URL'' @ ''\<newline>'' @
     ''   cd '' @ getRepoName ''REPO_NAME'' @ ''\<newline>'' @
     ''   ```\<newline>'' @
     ''\<newline>'' @
     ''2. **Create a virtual environment**\<newline>'' @
     ''   ```bash\<newline>'' @
     ''   python -m venv venv\<newline>'' @
     ''   source venv/bin/activate  # On Windows: venv'' @ [CHR 0x5C] @ ''Scripts'' @ [CHR 0x5C] @
     ''activate\<newline>'' @
     ''   ```\<newline>'' @
     ''\<newline>'' @
     ''3. **Install dependencies**\<newline>'' @
     ''   ```bash\<newline>'' @
     ''   pip install -r requirements.txt\<newline>'' @
     ''   ```\<newline>'' @
     ''\<newline>'' @
     ''4. **Run the application**\<newline>'' @
     ''   ```bash\<newline>'' @
     ''   python main.py\<newline>'' @
     ''   ```''\<close>

definition installSteps_java :: string where
  \<open>installSteps_java =
     ''### Prerequisites\<newline>'' @
     ''- Java 11 or higher\<newline>'' @
     ''- Maven\<newline>'' @
     ''\<newline>'' @
     ''### Installation Steps\<newline>'' @
     ''\<newline>'' @
     ''1. **Clone the repository**\<newline>'' @
     ''   ```bash\<newline>'' @
     ''   git clone '' @ getCloneUrl ''REPO_URL'' @ ''\<newline>'' @
     ''   cd '' @ getRepoName ''REPO_NAME'' @ ''\<newline>'' @
     ''   ```\<newline>'' @
     ''\<newline>'' @
     ''2. **Build the project**\<newline>'' @
     ''   ```bash\<newline>'' @
     ''   mvn clean install\<newline>'' @
     ''   ```\<newline>'' @
     ''\<newline>'' @
     ''3. **Run the application**\<newline>'' @
     ''   ```bash\<newline>'' @
     ''   mvn spring-boot:run\<newline>'' @
     ''   ```''\<close>

definition installSteps_generic :: string where
  \<open>installSteps_generic =
     ''### Prerequisites\<newline>'' @
     ''- Check the technology stack above for specific requirements\<newline>'' @
     ''\<newline>'' @
     ''### Installation Steps\<newline>'' @
     ''\<newline>'' @
     ''1. **Clone the repository**\<newline>'' @
     ''   ```bash\<newline>'' @
     ''   git clone '' @ getCloneUrl ''REPO_URL'' @ ''\<newline>'' @
     ''   cd '' @ getRepoName ''REPO_NAME'' @ ''\<newline>'' @
     ''   ```\<newline>'' @
     ''\<newline>'' @
     ''2. **Follow the setup instructions for your specific technology stack**\<newline>'' @
     ''   \<newline>'' @
     ''3. **Configure environment variables if needed**\<newline>'' @
     ''   \<newline>'' @
     ''4. **Run the application according to your platform requirements**''\<close>

definition generateInstallation :: "host \<Rightarrow> TechnologyStack \<Rightarrow> RepoFile list \<Rightarrow> string" where
  \<open>generateInstallation h techStack files =
     (let fileNames = map (\<lambda>f. toLowerCase h (name f)) files;
          installSteps =
            (if ''package.json'' \<in> set fileNames then
               (let packageManager =
                      (if ''yarn.lock'' \<in> set fileNames then ''yarn''
                       else if ''pnpm-lock.yaml'' \<in> set fileNames then ''pnpm'' else ''npm'')
                in installSteps_node packageManager)
             else if ''requirements.txt'' \<in> set fileNames \<or> ''pyproject.toml'' \<in> set fileNames then
               installSteps_python
             else if ''pom.xml'' \<in> set fileNames then
               installSteps_java
             else
               installSteps_generic)
      in ''## '' @ glyph_rocket @ '' Installation\<newline>'' @
         ''\<newline>'' @
         installSteps)\<close>

definition generateUsage :: "host \<Rightarrow> Repository \<Rightarrow> TechnologyStack \<Rightarrow> RepoFile list \<Rightarrow> string" where
  \<open>generateUsage h repository techStack files =
     (let fileNames = map (\<lambda>f. toLowerCase h (name f)) files;
          usageContent =
            (if ''package.json'' \<in> set fileNames then
               (let packageManager =
                      (if ''yarn.lock'' \<in> set fileNames then ''yarn''
                       else if ''pnpm-lock.yaml'' \<in> set fileNames then ''pnpm'' else ''npm'')
                in ''### Development Mode\<newline>'' @
                   ''```bash\<newline>'' @
                   packageManager @ '' run dev\<newline>'' @
                   ''```\<newline>'' @
                   ''\<newline>'' @
                   ''### Production Build\<newline>'' @
                   ''```bash\<newline>'' @
                   packageManager @ '' run build\<newline>'' @
                   packageManager @ '' start\<newline>'' @
                   ''```\<newline>'' @
                   ''\<newline>'' @
                   ''### Running Tests\<newline>'' @
                   ''```bash\<newline>'' @
                   packageManager @ '' test\<newline>'' @
                   ''```\<newline>'' @
                   ''\<newline>'' @
                   ''### Linting\<newline>'' @
                   ''```bash\<newline>'' @
                   packageManager @ '' run lint\<newline>'' @
                   ''```'')
             else if ''requirements.txt'' \<in> set fileNames then
               ''### Running the Application\<newline>'' @
               ''```bash\<newline>'' @
               ''python main.py\<newline>'' @
               ''```\<newline>'' @
               ''\<newline>'' @
               ''### Running Tests\<newline>'' @
               ''```bash\<newline>'' @
               ''python -m pytest\<newline>'' @
               ''```\<newline>'' @
               ''\<newline>'' @
               ''### Development Mode\<newline>'' @
               ''```bash\<newline>'' @
               ''python manage.py runserver  # For Django projects\<newline>'' @
               ''flask run  # For Flask projects\<newline>'' @
               ''```''
             else
               ''### Basic Usage\<newline>'' @
               ''\<newline>'' @
               ''After installation, you can start using the application by following these steps:\<newline>'' @
               ''\<newline>'' @
               ''1. Launch the application using the appropriate command for your environment\<newline>'' @
               ''2. Access the application through your web browser or terminal\<newline>'' @
               ''3. Follow the on-screen instructions or refer to the documentation\<newline>'' @
               ''\<newline>'' @
               ''### Configuration\<newline>'' @
               ''\<newline>'' @
               ''You can customize the application behavior by modifying the configuration files or environment variables.'')
      in ''## '' @ glyph_open_book @ '' Usage\<newline>'' @
         ''\<newline>'' @
         usageContent)\<close>

subsection \<open>Project structure\<close>

text \<open>The comparator that \<open>buildFileTree\<close> sorts by.\<close>

definition compare_files :: "host \<Rightarrow> RepoFile \<Rightarrow> RepoFile \<Rightarrow> int" where
  "compare_files h a b =
     (if type a = Dir \<and> type b = File then - 1
      else if type a = File \<and> type b = Dir then 1
      else localeCompare h (name a) (name b))"

text \<open>The array \<open>tree\<close>: one line for each entry of the sorted listing.\<close>

definition tree_lines :: "RepoFile list \<Rightarrow> string list" where
  \<open>tree_lines sortedFiles =
     map (\<lambda>(index, file).
       let isLast = (int index = int (length sortedFiles) - 1);
           prefix = (if isLast then box_up_right @ box_horizontal @ box_horizontal @ '' '' else box_vertical_right @ box_horizontal @ box_horizontal @ '' '');
           icon = (if type file = Dir then glyph_file_folder @ '' '' else glyph_page @ '' '')
       in prefix @ icon @ name file)
       (enumerate 0 sortedFiles)\<close>

text \<open>
  \<open>files.sort\<close> sorts the array it is called on in place and returns it: the listing of
  the caller is the sorted one afterwards. The functions that sort return the listing
  as they leave it, next to their result.
\<close>

definition buildFileTree :: "host \<Rightarrow> RepoFile list \<Rightarrow> string \<times> RepoFile list" where
  "buildFileTree h files =
     (let sortedFiles = sort_by (compare_files h) files;
          tree = tree_lines sortedFiles
      in (join ''\<newline>'' tree, sortedFiles))"

definition generateProjectStructure :: "host \<Rightarrow> RepoFile list \<Rightarrow> string \<times> RepoFile list" where
  \<open>generateProjectStructure h files =
     (let (structure, files) = buildFileTree h files
      in (''## '' @ glyph_file_folder @ '' Project Structure\<newline>'' @
          ''\<newline>'' @
          ''```\<newline>'' @
          structure @ ''\<newline>'' @
          ''```'', files))\<close>

subsection \<open>The static sections, license and contact\<close>

definition generateApiDocs :: "TechnologyStack \<Rightarrow> string" where
  \<open>generateApiDocs techStack =
     (let port = (if ''Django'' \<in> set (frameworks techStack) then ''8000'' else ''3000'')
      in ''## '' @ glyph_satellite_antenna @ '' API Documentation\<newline>'' @
         ''\<newline>'' @
         ''### Base URL\<newline>'' @
         ''```\<newline>'' @
         ''http://localhost:'' @ port @ ''/api\<newline>'' @
         ''```\<newline>'' @
         ''\<newline>'' @
         ''### Authentication\<newline>'' @
         ''Some endpoints may require authentication. Include the authorization header:\<newline>'' @
         ''```bash\<newline>'' @
         ''Authorization: Bearer <your-token>\<newline>'' @
         ''```\<newline>'' @
         ''\<newline>'' @
         ''### Common Endpoints\<newline>'' @
         ''\<newline>'' @
         ''#### Health Check\<newline>'' @
         ''```http\<newline>'' @
         ''GET /api/health\<newline>'' @
         ''```\<newline>'' @
         ''\<newline>'' @
         ''**Response:**\<newline>'' @
         ''```json\<newline>'' @
         ''{\<newline>'' @
         ''  "status": "ok",\<newline>'' @
         ''  "timestamp": "2024-01-01T00:00:00Z"\<newline>'' @
         ''}\<newline>'' @
         ''```\<newline>'' @
         ''\<newline>'' @
         ''For detailed API documentation, please refer to the API documentation or check if Swagger/OpenAPI documentation is available at `/api/docs`.'')\<close>

definition generateScripts :: string where
  \<open>generateScripts =
     ''## '' @ glyph_scroll @ '' Available Scripts\<newline>'' @
     ''\<newline>'' @
     ''| Script | Description |\<newline>'' @
     ''|--------|-------------|\<newline>'' @
     ''| `npm run dev` | Start development server |\<newline>'' @
     ''| `npm run build` | Build for production |\<newline>'' @
     ''| `npm run start` | Start production server |\<newline>'' @
     ''| `npm run test` | Run test suite |\<newline>'' @
     ''| `npm run lint` | Run linter |\<newline>'' @
     ''| `npm run format` | Format code |\<newline>'' @
     ''\<newline>'' @
     ''Run `npm run` to see all available scripts.''\<close>

definition generateContributing :: string where
  \<open>generateContributing =
     ''## '' @ glyph_handshake @ '' Contributing\<newline>'' @
     ''\<newline>'' @
     ''We welcome contributions to this project! Here'' @ [CHR 0x27] @
     ''s how you can help:\<newline>'' @
     ''\<newline>'' @
     ''### Getting Started\<newline>'' @
     ''1. Fork the repository\<newline>'' @
     ''2. Create a feature branch (`git checkout -b feature/amazing-feature`)\<newline>'' @
     ''3. Make your changes\<newline>'' @
     ''4. Commit your changes (`git commit -m '' @ [CHR 0x27] @ ''Add amazing feature'' @
     [CHR 0x27] @ ''`)\<newline>'' @
     ''5. Push to the branch (`git push origin feature/amazing-feature`)\<newline>'' @
     ''6. Open a Pull Request\<newline>'' @
     ''\<newline>'' @
     ''### Development Guidelines\<newline>'' @
     ''- Follow the existing code style and conventions\<newline>'' @
     ''- Write clear, concise commit messages\<newline>'' @
     ''- Add tests for new features\<newline>'' @
     ''- Update documentation as needed\<newline>'' @
     ''- Ensure all tests pass before submitting\<newline>'' @
     ''\<newline>'' @
     ''### Code of Conduct\<newline>'' @
     ''Please note that this project is released with a [Contributor Code of Conduct](CODE_OF_CONDUCT.md). By participating in this project you agree to abide by its terms.''\<close>

text \<open>\<open>repository.license?.name || d\<close>.\<close>

definition generateLicense :: "Repository \<Rightarrow> string" where
  \<open>generateLicense repository =
     (let license = or_else (map_option License.name (Repository.license repository)) ''MIT License'';
          spdxId = or_else (map_option spdx_id (Repository.license repository)) ''MIT''
      in ''## '' @ glyph_page @ '' License\<newline>'' @
         ''\<newline>'' @
         ''This project is licensed under the '' @ license @
         '' - see the [LICENSE](LICENSE) file for details.\<newline>'' @
         ''\<newline>'' @
         ''[![License](https://img.shields.io/badge/License-'' @ spdxId @
         ''-blue.svg)](LICENSE)'')\<close>

text \<open>\<open>s.split('/')[0]\<close>: the text before the first slash.\<close>

definition generateContact :: "Repository \<Rightarrow> string" where
  \<open>generateContact repository =
     (let ownerName = takeWhile (\<lambda>c. c \<noteq> CHR ''/'') (full_name repository)
      in ''## '' @ glyph_telephone @ '' Contact\<newline>'' @
         ''\<newline>'' @
         ''**Project Maintainer:** [@'' @ ownerName @ ''](https://github.com/'' @ ownerName @
         '')\<newline>'' @
         ''\<newline>'' @
         ''**Project Link:** ['' @ html_url repository @ '']('' @ html_url repository @
         '')\<newline>'' @
         ''\<newline>'' @
         ''### Support\<newline>'' @
         ''- '' @ glyph_bug @ '' **Bug Reports:** [Issues]('' @ html_url repository @
         ''/issues)\<newline>'' @
         ''- '' @ glyph_light_bulb @ '' **Feature Requests:** [Issues]('' @ html_url repository @
         ''/issues)\<newline>'' @
         ''- '' @ glyph_e_mail @ '' **Email:** [Contact via GitHub](https://github.com/'' @
         ownerName @ '')\<newline>'' @
         ''\<newline>'' @
         ''### Show your support\<newline>'' @
         ''Give a '' @ glyph_star @ variation_selector_16 @
         '' if this project helped you!\<newline>'' @
         ''\<newline>'' @
         ''---\<newline>'' @
         ''\<newline>'' @
         ''<div align="center">\<newline>'' @
         ''  Made with '' @ glyph_heart @ variation_selector_16 @
         '' by the development team\<newline>'' @
         ''</div>'')\<close>

subsection \<open>The document\<close>

text \<open>The array \<open>sections\<close> as it stands before it is filtered, and the listing as it is left.\<close>

definition sections_array :: "host \<Rightarrow> Repository \<Rightarrow> TechnologyStack \<Rightarrow> RepoFile list \<Rightarrow> string list \<times> RepoFile list" where
  "sections_array h repository techStack files =
     (let sections = [];
          sections = push (generateHeader repository) sections;
          sections = push (generateBadges h repository techStack) sections;
          sections = push (generateDescription h repository techStack files) sections;
          sections = push (generateTableOfContents h techStack files) sections;
          sections = push (generateFeatures h repository techStack files) sections;
          sections = push (generateTechStack h techStack) sections;
          sections = push (generateInstallation h techStack files) sections;
          sections = push (generateUsage h repository techStack files) sections;
          (structure, files) = generateProjectStructure h files;
          sections = push structure sections;
          sections = if_do (shouldIncludeApiDocs h techStack files)
            (push (generateApiDocs techStack)) sections;
          sections = if_do (hasPackageJson h files) (push generateScripts) sections;
          sections = push generateContributing sections;
          sections = push (generateLicense repository) sections;
          sections = push (generateContact repository) sections
      in (sections, files))"

definition generateReadme :: "host \<Rightarrow> Repository \<Rightarrow> TechnologyStack \<Rightarrow> RepoFile list \<Rightarrow> string \<times> RepoFile list" where
  "generateReadme h repository techStack files =
     (let (sections, files) = sections_array h repository techStack files
      in (join ''\<newline>\<newline>'' (filter (\<lambda>section. truthy_string (trim section)) sections), files))"

subsection \<open>Placeholder resolution\<close>

text \<open>
  \<open>GetSubstitution\<close> for a pattern without capture groups: in the replacement text
  \<open>$$\<close> stands for a dollar sign, \<open>$&\<close> for the match, \<open>$`\<close> for the text before the
  match and \<open>$'\<close> for the text after it; every other character stands for itself.
\<close>

fun getSubstitution :: "string \<Rightarrow> string \<Rightarrow> string \<Rightarrow> string \<Rightarrow> string" where
  "getSubstitution matched before after [] = []"
| "getSubstitution matched before after [c] = [c]"
| "getSubstitution matched before after (c # d # t) =
     (if c = CHR ''$'' \<and> d = CHR ''$'' then CHR ''$'' # getSubstitution matched before after t
      else if c = CHR ''$'' \<and> d = CHR ''&'' then matched @ getSubstitution matched before after t
      else if c = CHR ''$'' \<and> d = CHR 0x60 then before @ getSubstitution matched before after t
      else if c = CHR ''$'' \<and> d = CHR 0x27 then after @ getSubstitution matched before after t
      else c # getSubstitution matched before after (d # t))"

text \<open>
  \<open>s.replace(/pattern/g, replacement)\<close> for a pattern of literal characters: the
  matches are found from left to right and do not overlap. \<open>before\<close> is the part of the
  string already passed.
\<close>

function replace_from :: "string \<Rightarrow> string \<Rightarrow> string \<Rightarrow> string \<Rightarrow> string" where
  "replace_from pattern replacement before [] = []"
| "replace_from pattern replacement before (c # cs) =
     (if pattern \<noteq> [] \<and> prefix pattern (c # cs) then
        getSubstitution pattern before (drop (length pattern) (c # cs)) replacement
          @ replace_from pattern replacement (before @ pattern) (drop (length pattern) (c # cs))
      else c # replace_from pattern replacement (before @ [c]) cs)"
  by pat_completeness auto
termination
  by (relation "measure (\<lambda>(pattern, replacement, before, s). length s)") auto

definition replace_global :: "string \<Rightarrow> string \<Rightarrow> string \<Rightarrow> string" where
  "replace_global pattern replacement s = replace_from pattern replacement [] s"

text \<open>\<open>finalReadme\<close> of \<open>handleAnalyze\<close>.\<close>

definition finalReadme :: "Repository \<Rightarrow> string \<Rightarrow> string" where
  "finalReadme repo readme =
     replace_global ''REPO_NAME'' (Repository.name repo)
       (replace_global ''REPO_URL'' (clone_url repo) readme)"

subsection \<open>Notions used to state the synthesizer's properties\<close>

text \<open>
  A case mapping that maps the ASCII letters and leaves every other byte as it is, and
  the exact floor of a logarithm: the greatest \<open>i\<close> with \<open>k ^ i \<le> n\<close>. The two hosts below
  use them; a real host agrees with them on ASCII names and away from the powers of
  \<open>k\<close>.
\<close>

definition ascii_toLowerCase_char :: "char \<Rightarrow> char" where
  "ascii_toLowerCase_char c =
     (case map_of (zip ''ABCDEFGHIJKLMNOPQRSTUVWXYZ'' ''abcdefghijklmnopqrstuvwxyz'') c of
        Some l \<Rightarrow> l | None \<Rightarrow> c)"

definition ascii_toLowerCase :: "string \<Rightarrow> string" where
  "ascii_toLowerCase s = map ascii_toLowerCase_char s"

function exact_floor_log :: "nat \<Rightarrow> nat \<Rightarrow> nat" where
  "exact_floor_log n k = (if k < 2 \<or> n < k then 0 else Suc (exact_floor_log (n div k) k))"
  by pat_completeness auto
termination
  by (relation "measure (\<lambda>(n, k). n)") auto

declare exact_floor_log.simps [simp del]

definition Object_prototype :: "string \<Rightarrow> string option" where
  "Object_prototype key =
     map_of [(''constructor'', ''function Object() { [native code] }''),
             (''toString'', ''function toString() { [native code] }''),
             (''valueOf'', ''function valueOf() { [native code] }''),
             (''hasOwnProperty'', ''function hasOwnProperty() { [native code] }''),
             (''isPrototypeOf'', ''function isPrototypeOf() { [native code] }''),
             (''propertyIsEnumerable'', ''function propertyIsEnumerable() { [native code] }''),
             (''toLocaleString'', ''function toLocaleString() { [native code] }''),
             (''__proto__'', ''[object Object]'')] key"

text \<open>
  The comparison of two strings by the values of their characters, position by
  position (the ordinal comparison), as a comparator.
\<close>

definition ordinal_compare :: "string \<Rightarrow> string \<Rightarrow> int" where
  "ordinal_compare a b = (if a < b then - 1 else if b < a then 1 else 0)"

text \<open>
  A comparison as the collations of the common hosts make it for names of ASCII
  letters: by the letters without regard to case first, and a lower-case letter before
  the same letter in upper case.
\<close>

definition collating_compare :: "string \<Rightarrow> string \<Rightarrow> int" where
  "collating_compare a b =
     (let c = ordinal_compare (ascii_toLowerCase a) (ascii_toLowerCase b)
      in if c \<noteq> 0 then c else ordinal_compare b a)"

text \<open>A comparator is consistent when it compares any two elements and is transitive.\<close>

definition consistent_comparator :: "('a \<Rightarrow> 'a \<Rightarrow> int) \<Rightarrow> bool" where
  "consistent_comparator cmp =
     ((\<forall>a b. cmp a b \<le> 0 \<or> cmp b a \<le> 0)
      \<and> (\<forall>a b c. cmp a b \<le> 0 \<and> cmp b c \<le> 0 \<longrightarrow> cmp a c \<le> 0))"

text \<open>Two hosts: one that compares names ordinally, one that collates them.\<close>

definition host_ordinal :: host where
  "host_ordinal =
     \<lparr>toLowerCase = ascii_toLowerCase,
      localeCompare = ordinal_compare,
      toLocaleDateString = (\<lambda>s. take 10 s),
      percentage = (\<lambda>bytes total. show_nat (bytes * 100 div total) @ ''.0''),
      Math_floor_log = exact_floor_log,
      inherited_property = Object_prototype\<rparr>"

definition host_collating :: host where
  "host_collating = host_ordinal\<lparr>localeCompare := collating_compare\<rparr>"

text \<open>Whether the listing has a file of a given name, compared in the host's lower case.\<close>

definition has_name :: "host \<Rightarrow> string \<Rightarrow> RepoFile list \<Rightarrow> bool" where
  "has_name h n files = (n \<in> set (map (\<lambda>f. toLowerCase h (name f)) files))"

text \<open>The number of places at which a text occurs in a string.\<close>

fun occurrences :: "string \<Rightarrow> string \<Rightarrow> nat" where
  "occurrences t [] = (if t = [] then 1 else 0)"
| "occurrences t (c # cs) = (if prefix t (c # cs) then 1 else 0) + occurrences t cs"

text \<open>The conditions of \<open>generateFeatures\<close> under which a feature is derived.\<close>

definition feature_signals :: "host \<Rightarrow> TechnologyStack \<Rightarrow> RepoFile list \<Rightarrow> bool list" where
  "feature_signals h techStack files =
     [''React'' \<in> set (frameworks techStack),
      ''Next.js'' \<in> set (frameworks techStack),
      ''Tailwind CSS'' \<in> set (tools techStack),
      ''Express.js'' \<in> set (frameworks techStack),
      length (databases techStack) > 0,
      has_name h ''dockerfile'' files,
      list_ex (\<lambda>f. includes_str (path f) ''.github/workflows'') files,
      list_ex (\<lambda>f. includes_str (toLowerCase h (name f)) ''test''
                 \<or> includes_str (toLowerCase h (name f)) ''spec'') files,
      has_name h ''.env.example'' files]"

text \<open>Two profiles and a repository to instantiate the properties with.\<close>

definition stack_empty :: TechnologyStack where
  "stack_empty = \<lparr>languages = [], frameworks = [], tools = [], databases = [], deployment = []\<rparr>"

definition stack_react :: TechnologyStack where
  "stack_react = \<lparr>languages = [(''TypeScript'', 800), (''JavaScript'', 200)],
     frameworks = [''React''], tools = [''TypeScript''], databases = [], deployment = []\<rparr>"

definition repo_hello :: Repository where
  "repo_hello =
     \<lparr>Repository.name = ''hello-world'',
      full_name = ''octocat/hello-world'',
      description = None,
      html_url = ''https://github.com/octocat/hello-world'',
      clone_url = ''https://github.com/octocat/hello-world.git'',
      language = None,
      languages_url = ''https://api.github.com/repos/octocat/hello-world/languages'',
      topics = [],
      license = None,
      default_branch = ''main'',
      created_at = ''2024-01-01T00:00:00Z'',
      updated_at = ''2024-01-02T00:00:00Z'',
      stargazers_count = 0,
      forks_count = 0,
      size_kb = 1536\<rparr>"

text \<open>A repository whose name is the text of a placeholder.\<close>

definition repo_placeholder :: Repository where
  "repo_placeholder =
     repo_hello\<lparr>Repository.name := ''REPO_NAME'',
       full_name := ''octocat/REPO_NAME'',
       html_url := ''https://github.com/octocat/REPO_NAME'',
       clone_url := ''https://github.com/octocat/REPO_NAME.git''\<rparr>"

definition installation_heading :: string where
  "installation_heading = ''## '' @ glyph_rocket @ '' Installation\<newline>\<newline>''"

text \<open>
  A replacement text is clean for a token when it is not empty, the token does not
  occur in it, and neither its first nor its last character occurs in the token.
\<close>

definition clean_for :: "string \<Rightarrow> string \<Rightarrow> bool" where
  "clean_for token r =
     (r \<noteq> [] \<and> hd r \<notin> set token \<and> last r \<notin> set token \<and> \<not> includes_str r token)"

section \<open>Properties\<close>

subsection \<open>Technology detection\<close>

lemma Set_add_distinct: "distinct s \<Longrightarrow> distinct (Set_add s x)"
  by (simp add: Set_add_def)

lemma foldl_Set_add_distinct: "distinct acc \<Longrightarrow> distinct (foldl Set_add acc xs)"
  by (induction xs arbitrary: acc) (simp_all add: Set_add_distinct)

lemma foldl_Set_add_set: "set (foldl Set_add acc xs) = set acc \<union> set xs"
  by (induction xs arbitrary: acc) (auto simp: Set_add_def)

lemma foldl_Set_add_fixed: "set xs \<subseteq> set acc \<Longrightarrow> foldl Set_add acc xs = acc"
  by (induction xs arbitrary: acc) (auto simp: Set_add_def)

lemma foldl_Set_add_distinct_id: "distinct (acc @ xs) \<Longrightarrow> foldl Set_add acc xs = acc @ xs"
  by (induction xs arbitrary: acc) (auto simp: Set_add_def)

lemma first_index_append_in: "x \<in> set acc \<Longrightarrow> first_index (acc @ xs) x = first_index acc x"
  by (simp add: first_index_def takeWhile_append1)

lemma first_index_append_out:
  "x \<notin> set acc \<Longrightarrow> first_index (acc @ xs) x = length acc + first_index xs x"
  unfolding first_index_def
  by (induction acc) auto

lemma first_index_Cons:
  "first_index (a # xs) y = (if y = a then 0 else Suc (first_index xs y))"
  by (auto simp: first_index_def)

lemma first_index_less: "x \<in> set acc \<Longrightarrow> first_index acc x < length acc"
  unfolding first_index_def
  by (induction acc) auto

lemma foldl_Set_add_order:
  "distinct acc \<Longrightarrow>
   sorted_wrt (\<lambda>x y. first_index (acc @ xs) x < first_index (acc @ xs) y) acc \<Longrightarrow>
   sorted_wrt (\<lambda>x y. first_index (acc @ xs) x < first_index (acc @ xs) y) (foldl Set_add acc xs)"
proof (induction xs arbitrary: acc)
  case Nil
  then show ?case by simp
next
  case (Cons a xs)
  show ?case
  proof (cases "a \<in> set acc")
    case True
    then have step: "Set_add acc a = acc" by (simp add: Set_add_def)
    have mono: "first_index (acc @ xs) x < first_index (acc @ xs) y \<Longrightarrow>
        first_index (acc @ a # xs) x < first_index (acc @ a # xs) y" for x y
      using True first_index_less [of y acc]
      by (cases "x \<in> set acc"; cases "y \<in> set acc")
         (auto simp: first_index_append_in first_index_append_out first_index_Cons)
    have "sorted_wrt (\<lambda>x y. first_index (acc @ xs) x < first_index (acc @ xs) y) acc"
      using Cons.prems(2)
      by (rule sorted_wrt_mono_rel [rotated])
         (auto simp: first_index_append_in)
    with Cons.IH [OF Cons.prems(1)]
    have "sorted_wrt (\<lambda>x y. first_index (acc @ xs) x < first_index (acc @ xs) y) (foldl Set_add acc xs)" .
    then have "sorted_wrt (\<lambda>x y. first_index (acc @ a # xs) x < first_index (acc @ a # xs) y) (foldl Set_add acc xs)"
      by (rule sorted_wrt_mono_rel [rotated]) (rule mono)
    with step show ?thesis by simp
  next
    case False
    then have step: "Set_add acc a = acc @ [a]" by (simp add: Set_add_def)
    have d: "distinct (acc @ [a])" using False Cons.prems(1) by simp
    have fa: "first_index (acc @ a # xs) a = length acc"
      using False by (simp add: first_index_append_out first_index_Cons)
    have "sorted_wrt (\<lambda>x y. first_index (acc @ a # xs) x < first_index (acc @ a # xs) y) (acc @ [a])"
      using Cons.prems(2) fa
      by (auto simp: sorted_wrt_append first_index_append_in first_index_less)
    then have "sorted_wrt (\<lambda>x y. first_index ((acc @ [a]) @ xs) x < first_index ((acc @ [a]) @ xs) y) (acc @ [a])"
      by simp
    from Cons.IH [OF d this] step show ?thesis by simp
  qed
qed

lemma new_Set_deduplicated: "deduplicated xs (new_Set xs)"
proof -
  have d: "distinct (new_Set xs)"
    unfolding new_Set_def by (rule foldl_Set_add_distinct) simp
  have s: "set (new_Set xs) = set xs"
    unfolding new_Set_def by (simp add: foldl_Set_add_set)
  have o: "sorted_wrt (\<lambda>x y. first_index xs x < first_index xs y) (new_Set xs)"
    unfolding new_Set_def using foldl_Set_add_order [of "[]" xs] by simp
  have i: "new_Set (new_Set xs) = new_Set xs"
    using foldl_Set_add_distinct_id [of "[]" "new_Set xs"] d
    by (simp add: new_Set_def)
  from d s o i show ?thesis
    by (simp add: deduplicated_def)
qed


lemma package_json_block_total: "fst (package_json_block e owner repo fileNames s) = None"
  by (simp add: package_json_block_def try_catch_def split: prod.splits option.splits)

lemma python_block_total: "fst (python_block e owner repo fileNames s) = None"
  by (simp add: python_block_def then_do_def pure_stmt_def try_catch_def
      split: prod.splits option.splits)

lemma detect_rules_total: "fst (detect_rules h e owner repo files langs) = None"
proof -
  obtain r1 s1 where p1: "package_json_block e owner repo (map (\<lambda>f. toLowerCase h (name f)) files)
      \<lparr>languages = langs, frameworks = [], tools = [], databases = [], deployment = [],
            warnings = []\<rparr> = (r1, s1)"
    by (cases "package_json_block e owner repo (map (\<lambda>f. toLowerCase h (name f)) files)
      \<lparr>languages = langs, frameworks = [], tools = [], databases = [], deployment = [],
            warnings = []\<rparr>")
  with package_json_block_total [of e owner repo "map (\<lambda>f. toLowerCase h (name f)) files"
      "\<lparr>languages = langs, frameworks = [], tools = [], databases = [], deployment = [],
            warnings = []\<rparr>"]
  have r1: "r1 = None" by simp
  obtain r2 s2 where p2: "python_block e owner repo (map (\<lambda>f. toLowerCase h (name f)) files) s1 = (r2, s2)"
    by (cases "python_block e owner repo (map (\<lambda>f. toLowerCase h (name f)) files) s1")
  with python_block_total [of e owner repo "map (\<lambda>f. toLowerCase h (name f)) files" s1]
  have r2: "r2 = None" by simp
  show ?thesis
    by (simp add: detect_rules_def then_do_def pure_stmt_def p1 p2 r1 r2)
qed

lemma detectTechnologies_returns:
  "\<exists>raw. detect_rules h e owner repo files langs = (None, raw)
     \<and> detectTechnologies h e owner repo files langs =
         Inr \<lparr>languages = languages raw,
               frameworks = new_Set (frameworks raw),
               tools = new_Set (tools raw),
               databases = new_Set (databases raw),
               deployment = new_Set (deployment raw)\<rparr>"
proof -
  obtain r raw where d: "detect_rules h e owner repo files langs = (r, raw)"
    by (cases "detect_rules h e owner repo files langs")
  with detect_rules_total [of h e owner repo files langs] have "r = None" by simp
  with d show ?thesis
    by (simp add: detectTechnologies_def)
qed

text \<open>
  C8. Detection always returns a profile, and each of its four lists is the
  deduplication of the list the rules pushed to: it has no duplicate label, it has the
  same labels, the labels stand in the order in which they were first pushed, and
  deduplicating it again yields the same list.
\<close>

theorem detect_lists_deduplicated:
  "\<exists>raw p. detect_rules h e owner repo files langs = (None, raw)
     \<and> detectTechnologies h e owner repo files langs = Inr p
     \<and> deduplicated (frameworks raw) (frameworks p)
     \<and> deduplicated (tools raw) (tools p)
     \<and> deduplicated (databases raw) (databases p)
     \<and> deduplicated (deployment raw) (deployment p)"
proof -
  from detectTechnologies_returns [of h e owner repo files langs]
  obtain raw where r: "detect_rules h e owner repo files langs = (None, raw)"
    and p: "detectTechnologies h e owner repo files langs =
         Inr \<lparr>languages = languages raw,
               frameworks = new_Set (frameworks raw),
               tools = new_Set (tools raw),
               databases = new_Set (databases raw),
               deployment = new_Set (deployment raw)\<rparr>"
    by blast
  define prof where "prof = \<lparr>languages = languages raw,
               frameworks = new_Set (frameworks raw),
               tools = new_Set (tools raw),
               databases = new_Set (databases raw),
               deployment = new_Set (deployment raw)\<rparr>"
  have "detect_rules h e owner repo files langs = (None, raw)
     \<and> detectTechnologies h e owner repo files langs = Inr prof
     \<and> deduplicated (frameworks raw) (frameworks prof)
     \<and> deduplicated (tools raw) (tools prof)
     \<and> deduplicated (databases raw) (databases prof)
     \<and> deduplicated (deployment raw) (deployment prof)"
    using r p by (simp add: prof_def new_Set_deduplicated)
  then show ?thesis
    by blast
qed

lemma unrecognized_names:
  assumes "\<forall>f \<in> set files. \<not> recognized h f" and "m \<in> set manifest_names"
  shows "m \<notin> set (map (\<lambda>f. toLowerCase h (name f)) files)"
  using assms by (auto simp: recognized_def)

lemma unrecognized_suffixes:
  assumes "\<forall>f \<in> set files. \<not> recognized h f"
  shows "\<not> list_ex (\<lambda>f. endsWith (name f) ''.csproj'' \<or> endsWith (name f) ''.sln'') files"
    and "\<not> list_ex (\<lambda>f. endsWith (name f) ''.sql'') files"
    and "\<not> list_ex (\<lambda>f. includes_str (path f) ''.github/workflows'') files"
  using assms by (auto simp: recognized_def list_ex_iff)

text \<open>
  C3. For a listing without any recognized manifest or marker file, detection returns
  the profile with four empty lists and the language map it was given. A file is
  recognized by its name in the host's lower case, by the suffix of its name, or by its
  path.
\<close>

theorem detect_without_markers:
  assumes "\<forall>f \<in> set files. \<not> recognized h f"
  shows "detectTechnologies h e owner repo files langs =
      Inr \<lparr>languages = langs, frameworks = [], tools = [], databases = [], deployment = []\<rparr>"
proof -
  note n = unrecognized_names [OF assms]
  have names: "''package.json'' \<notin> set (map (\<lambda>f. toLowerCase h (name f)) files)"
    "''requirements.txt'' \<notin> set (map (\<lambda>f. toLowerCase h (name f)) files)"
    "''pyproject.toml'' \<notin> set (map (\<lambda>f. toLowerCase h (name f)) files)"
    "''pipfile'' \<notin> set (map (\<lambda>f. toLowerCase h (name f)) files)"
    "''pom.xml'' \<notin> set (map (\<lambda>f. toLowerCase h (name f)) files)"
    "''build.gradle'' \<notin> set (map (\<lambda>f. toLowerCase h (name f)) files)"
    "''go.mod'' \<notin> set (map (\<lambda>f. toLowerCase h (name f)) files)"
    "''cargo.toml'' \<notin> set (map (\<lambda>f. toLowerCase h (name f)) files)"
    "''dockerfile'' \<notin> set (map (\<lambda>f. toLowerCase h (name f)) files)"
    "''docker-compose.yml'' \<notin> set (map (\<lambda>f. toLowerCase h (name f)) files)"
    "''docker-compose.yaml'' \<notin> set (map (\<lambda>f. toLowerCase h (name f)) files)"
    "''.travis.yml'' \<notin> set (map (\<lambda>f. toLowerCase h (name f)) files)"
    "''jenkinsfile'' \<notin> set (map (\<lambda>f. toLowerCase h (name f)) files)"
    "''.gitlab-ci.yml'' \<notin> set (map (\<lambda>f. toLowerCase h (name f)) files)"
    "''tsconfig.json'' \<notin> set (map (\<lambda>f. toLowerCase h (name f)) files)"
    "''tailwind.config.js'' \<notin> set (map (\<lambda>f. toLowerCase h (name f)) files)"
    "''tailwind.config.ts'' \<notin> set (map (\<lambda>f. toLowerCase h (name f)) files)"
    "''next.config.js'' \<notin> set (map (\<lambda>f. toLowerCase h (name f)) files)"
    "''nuxt.config.js'' \<notin> set (map (\<lambda>f. toLowerCase h (name f)) files)"
    "''vue.config.js'' \<notin> set (map (\<lambda>f. toLowerCase h (name f)) files)"
    "''angular.json'' \<notin> set (map (\<lambda>f. toLowerCase h (name f)) files)"
    "''schema.prisma'' \<notin> set (map (\<lambda>f. toLowerCase h (name f)) files)"
    by (rule n, simp add: manifest_names_def)+
  note sfx = unrecognized_suffixes [OF assms]
  have rules: "detect_rules h e owner repo files langs =
      (None, \<lparr>languages = langs, frameworks = [], tools = [], databases = [], deployment = [],
            warnings = []\<rparr>)"
    unfolding detect_rules_def Let_def then_do_def pure_stmt_def package_json_block_def
      python_block_def presence_rules_def
    using names sfx by (simp add: block_def if_do_def)
  then show ?thesis
    by (simp add: detectTechnologies_def new_Set_def)
qed

text \<open>A listing that holds only \<open>README.md\<close> is such a listing.\<close>

theorem detect_without_markers_witness:
  "\<not> recognized host_ordinal (file_named ''README.md'')
   \<and> detectTechnologies host_ordinal env_offline ''octocat'' ''hello'' [file_named ''README.md''] [(''C'', 10)] =
      Inr \<lparr>languages = [(''C'', 10)], frameworks = [], tools = [], databases = [], deployment = []\<rparr>"
proof -
  have r: "\<not> recognized host_ordinal (file_named ''README.md'')"
    by (simp add: recognized_def file_named_def host_ordinal_def ascii_toLowerCase_def
        ascii_toLowerCase_char_def
        manifest_names_def endsWith_def includes_str_def suffix_to_prefix sublist_Cons_right)
  then have "\<forall>f \<in> set [file_named ''README.md'']. \<not> recognized host_ordinal f"
    by simp
  from detect_without_markers [OF this] r show ?thesis
    by simp
qed


lemma getFileContent_failure:
  "getFileContent_try e owner repo p = Inl err \<Longrightarrow>
   getFileContent e owner repo p = ([], [(''Could not fetch '' @ p @ '':'', err)])"
  by (simp add: getFileContent_def)

lemma package_json_block_empty:
  assumes "fst (getFileContent e owner repo ''package.json'') = []"
  shows "package_json_block e owner repo fileNames s =
     (None, if ''package.json'' \<in> set fileNames
            then console_warn (snd (getFileContent e owner repo ''package.json'')) s else s)"
  using assms
  by (cases "getFileContent e owner repo ''package.json''")
     (simp add: package_json_block_def try_catch_def package_json_try_def truthy_string_def)

lemma package_json_block_malformed:
  assumes "getFileContent e owner repo ''package.json'' = (c, ws)" and "c \<noteq> []"
    and "JSON_parse e c = Inl err" and "''package.json'' \<in> set fileNames"
  shows "package_json_block e owner repo fileNames s =
     (None, console_warn [(''Could not parse package.json:'', err)] (console_warn ws s))"
  using assms
  by (simp add: package_json_block_def try_catch_def package_json_try_def truthy_string_def)

lemma python_rules_empty: "python_rules [] s = s"
  by (simp add: python_rules_def block_def if_do_def includes_str_def)

lemma python_block_empty:
  assumes "fst (getFileContent e owner repo ''requirements.txt'') = []"
  shows "python_block e owner repo fileNames s =
     (None, if ''requirements.txt'' \<in> set fileNames
            then console_warn (snd (getFileContent e owner repo ''requirements.txt''))
                   (push_tools ''pip'' s)
            else if ''pyproject.toml'' \<in> set fileNames \<or> ''pipfile'' \<in> set fileNames
            then push_tools ''pip'' s else s)"
  using assms
  by (cases "getFileContent e owner repo ''requirements.txt''")
     (simp add: python_block_def then_do_def pure_stmt_def try_catch_def python_try_def
        python_rules_empty console_warn_def)

text \<open>
  C2. When anything fails while a manifest is fetched, \<open>getFileContent\<close> returns the
  empty string and logs a warning. Empty content of \<open>package.json\<close> leaves the four
  lists as they are; empty content of \<open>requirements.txt\<close> adds nothing beyond the
  \<open>pip\<close> label that the presence of a Python manifest alone gives. A
  \<open>package.json\<close> that does not parse is caught in the detector, logged as a warning,
  and leaves the four lists as they are. In every case detection returns a profile and
  no error reaches the caller.
\<close>

theorem detect_survives_manifest_failures:
  "(getFileContent_try e owner repo p = Inl err \<longrightarrow>
      getFileContent e owner repo p = ([], [(''Could not fetch '' @ p @ '':'', err)]))
   \<and> (fst (getFileContent e owner repo ''package.json'') = [] \<longrightarrow>
      package_json_block e owner repo fileNames s =
        (None, if ''package.json'' \<in> set fileNames
               then console_warn (snd (getFileContent e owner repo ''package.json'')) s else s))
   \<and> (fst (getFileContent e owner repo ''requirements.txt'') = [] \<longrightarrow>
      python_block e owner repo fileNames s =
        (None, if ''requirements.txt'' \<in> set fileNames
               then console_warn (snd (getFileContent e owner repo ''requirements.txt''))
                      (push_tools ''pip'' s)
               else if ''pyproject.toml'' \<in> set fileNames \<or> ''pipfile'' \<in> set fileNames
               then push_tools ''pip'' s else s))
   \<and> (getFileContent e owner repo ''package.json'' = (c, ws) \<and> c \<noteq> []
        \<and> JSON_parse e c = Inl perr \<and> ''package.json'' \<in> set fileNames \<longrightarrow>
      package_json_block e owner repo fileNames s =
        (None, console_warn [(''Could not parse package.json:'', perr)] (console_warn ws s)))
   \<and> (\<exists>profile. detectTechnologies h e owner repo files langs = Inr profile)"
proof (intro conjI impI)
  show "\<exists>profile. detectTechnologies h e owner repo files langs = Inr profile"
    using detectTechnologies_returns [of h e owner repo files langs] by blast
qed (auto simp: getFileContent_failure package_json_block_empty python_block_empty
       package_json_block_malformed)

text \<open>
  Two environments in which the hypotheses hold: one in which every request fails, one
  in which \<open>package.json\<close> is fetched and does not parse.
\<close>

theorem detect_survives_manifest_failures_witness:
  "getFileContent_try env_offline ''octocat'' ''hello'' ''package.json''
     = Inl (Error ''GitHub API error: Not Found'')
   \<and> getFileContent env_offline ''octocat'' ''hello'' ''package.json''
     = ([], [(''Could not fetch package.json:'', Error ''GitHub API error: Not Found'')])
   \<and> fst (getFileContent env_offline ''octocat'' ''hello'' ''package.json'') = []
   \<and> package_json_block env_offline ''octocat'' ''hello'' [''package.json'']
        \<lparr>languages = [], frameworks = [], tools = [], databases = [], deployment = [],
         warnings = []\<rparr>
     = (None, \<lparr>languages = [], frameworks = [], tools = [], databases = [], deployment = [],
         warnings = [(''Could not fetch package.json:'', Error ''GitHub API error: Not Found'')]\<rparr>)
   \<and> fst (getFileContent env_offline ''octocat'' ''hello'' ''requirements.txt'') = []
   \<and> python_block env_offline ''octocat'' ''hello'' [''requirements.txt'']
        \<lparr>languages = [], frameworks = [], tools = [], databases = [], deployment = [],
         warnings = []\<rparr>
     = (None, \<lparr>languages = [], frameworks = [], tools = [''pip''], databases = [], deployment = [],
         warnings = [(''Could not fetch requirements.txt:'', Error ''GitHub API error: Not Found'')]\<rparr>)
   \<and> getFileContent env_malformed ''octocat'' ''hello'' ''package.json'' = (''{{'', [])
   \<and> JSON_parse env_malformed ''{{'' = Inl SyntaxError
   \<and> package_json_block env_malformed ''octocat'' ''hello'' [''package.json'']
        \<lparr>languages = [], frameworks = [], tools = [], databases = [], deployment = [],
         warnings = []\<rparr>
     = (None, \<lparr>languages = [], frameworks = [], tools = [], databases = [], deployment = [],
         warnings = [(''Could not parse package.json:'', SyntaxError)]\<rparr>)
   \<and> (\<exists>profile. detectTechnologies host_ordinal env_malformed ''octocat'' ''hello''
         [file_named ''package.json''] [] = Inr profile)"
proof -
  have t: "getFileContent_try env_offline ''octocat'' ''hello'' ''package.json''
     = Inl (Error ''GitHub API error: Not Found'')"
    by (simp add: getFileContent_try_def env_offline_def)
  have t': "getFileContent_try env_offline ''octocat'' ''hello'' ''requirements.txt''
     = Inl (Error ''GitHub API error: Not Found'')"
    by (simp add: getFileContent_try_def env_offline_def)
  have g: "getFileContent env_malformed ''octocat'' ''hello'' ''package.json'' = (''{{'', [])"
    by (simp add: getFileContent_def getFileContent_try_def env_malformed_def)
  have j: "JSON_parse env_malformed ''{{'' = Inl SyntaxError"
    by (simp add: env_malformed_def)
  note off = detect_survives_manifest_failures [of env_offline "''octocat''" "''hello''"
      "''package.json''" "Error ''GitHub API error: Not Found''" "[''package.json'']"
      "\<lparr>languages = [], frameworks = [], tools = [], databases = [], deployment = [],
         warnings = []\<rparr>"]
  note req = detect_survives_manifest_failures [of env_offline "''octocat''" "''hello''"
      "''requirements.txt''" "Error ''GitHub API error: Not Found''" "[''requirements.txt'']"
      "\<lparr>languages = [], frameworks = [], tools = [], databases = [], deployment = [],
         warnings = []\<rparr>"]
  note mal = detect_survives_manifest_failures [of env_malformed "''octocat''" "''hello''"
      "''package.json''" _ "[''package.json'']"
      "\<lparr>languages = [], frameworks = [], tools = [], databases = [], deployment = [],
         warnings = []\<rparr>" "''{{''" "[]" SyntaxError host_ordinal "[file_named ''package.json'']" "[]"]
  from off t have a: "getFileContent env_offline ''octocat'' ''hello'' ''package.json''
     = ([], [(''Could not fetch package.json:'', Error ''GitHub API error: Not Found'')])"
    by simp
  then have a0: "fst (getFileContent env_offline ''octocat'' ''hello'' ''package.json'') = []"
    by simp
  from off a0 a have a1: "package_json_block env_offline ''octocat'' ''hello'' [''package.json'']
        \<lparr>languages = [], frameworks = [], tools = [], databases = [], deployment = [],
         warnings = []\<rparr>
     = (None, \<lparr>languages = [], frameworks = [], tools = [], databases = [], deployment = [],
         warnings = [(''Could not fetch package.json:'', Error ''GitHub API error: Not Found'')]\<rparr>)"
    by (simp add: console_warn_def)
  from req t' have r: "getFileContent env_offline ''octocat'' ''hello'' ''requirements.txt''
     = ([], [(''Could not fetch requirements.txt:'', Error ''GitHub API error: Not Found'')])"
    by simp
  then have r0: "fst (getFileContent env_offline ''octocat'' ''hello'' ''requirements.txt'') = []"
    by simp
  from req r0 r have r1: "python_block env_offline ''octocat'' ''hello'' [''requirements.txt'']
        \<lparr>languages = [], frameworks = [], tools = [], databases = [], deployment = [],
         warnings = []\<rparr>
     = (None, \<lparr>languages = [], frameworks = [], tools = [''pip''], databases = [], deployment = [],
         warnings = [(''Could not fetch requirements.txt:'', Error ''GitHub API error: Not Found'')]\<rparr>)"
    by (simp add: console_warn_def push_tools_def)
  from mal g j have b: "package_json_block env_malformed ''octocat'' ''hello'' [''package.json'']
        \<lparr>languages = [], frameworks = [], tools = [], databases = [], deployment = [],
         warnings = []\<rparr>
     = (None, \<lparr>languages = [], frameworks = [], tools = [], databases = [], deployment = [],
         warnings = [(''Could not parse package.json:'', SyntaxError)]\<rparr>)"
    by (simp add: console_warn_def)
  from mal have c: "\<exists>profile. detectTechnologies host_ordinal env_malformed ''octocat'' ''hello''
         [file_named ''package.json''] [] = Inr profile"
    by blast
  from t a a0 a1 r0 r1 g j b c show ?thesis
    by blast
qed

subsection \<open>Size formatting\<close>





lemma parseFloat_toString_100: "parseFloat_toString 100 = ''1''"
  by (simp add: parseFloat_toString_def show_nat.simps digit_char_def Let_def)



text \<open>
  Where the host's logarithm rounds up to the next unit, the number is the quotient by
  that unit: one byte less than \<open>1024 ^ 5\<close> with the index 5 is shown as \<open>1 undefined\<close>.
\<close>

lemma formatBytes_index_past_units:
  "Math_floor_log h (2 ^ 50 - 1) 1024 = 5 \<Longrightarrow> formatBytes h (2 ^ 50 - 1) = ''1 undefined''"
  by (simp add: formatBytes_def toFixed_2_def parseFloat_toString_100 sizes_at_def sizes_def)











subsection \<open>Badges, and the listing after synthesis\<close>

lemma trimStart_no_space:
  assumes "s \<noteq> []" and "\<forall>w \<in> set white_space. hd s \<notin> set w"
  shows "trimStart s = s"
proof -
  have "find (\<lambda>w. prefix w s) white_space = None"
  proof (rule ccontr)
    assume "find (\<lambda>w. prefix w s) white_space \<noteq> None"
    then obtain w where "w \<in> set white_space" and p: "prefix w s"
      by (auto simp: find_None_iff)
    moreover from this have "w \<noteq> []"
      by (auto simp: white_space_def)
    ultimately have "hd s \<in> set w"
      using assms(1) by (cases w; cases s) (auto simp: prefix_Cons)
    with \<open>w \<in> set white_space\<close> assms(2) show False
      by blast
  qed
  then show ?thesis
    by (simp add: trimStart.simps [of s])
qed

lemma trimEnd_keeps_head:
  "s \<noteq> [] \<Longrightarrow> \<forall>w \<in> set white_space. hd s \<notin> set w \<Longrightarrow> trimEnd s \<noteq> [] \<and> hd (trimEnd s) = hd s"
proof (induction s rule: trimEnd.induct)
  case (1 s)
  show ?case
  proof (cases "find (\<lambda>w. suffix w s) white_space")
    case None
    with "1.prems" show ?thesis
      by (simp add: trimEnd.simps [of s])
  next
    case (Some w)
    then have win: "w \<in> set white_space" and suf: "suffix w s"
      by (auto simp: find_Some_iff)
    from suf obtain p where s: "s = p @ w"
      by (auto simp: suffix_def)
    have "p \<noteq> []"
    proof
      assume "p = []"
      with s have "s = w" by simp
      with "1.prems" have "hd w \<in> set w" by (cases w) auto
      with \<open>s = w\<close> win "1.prems"(2) show False by blast
    qed
    then have hd: "hd p = hd s" using s by simp
    have tk: "take (length s - length w) s = p"
      using s by simp
    from "1.IH" [OF Some] tk \<open>p \<noteq> []\<close> hd "1.prems"(2)
    have "trimEnd p \<noteq> [] \<and> hd (trimEnd p) = hd p"
      by simp
    with Some tk hd show ?thesis
      by (simp add: trimEnd.simps [of s])
  qed
qed

lemma trim_nonblank:
  assumes "s \<noteq> []" and "\<forall>w \<in> set white_space. hd s \<notin> set w"
  shows "trim s \<noteq> []"
  using assms by (simp add: trim_def trimStart_no_space trimEnd_keeps_head)

lemma bracket_no_space: "\<forall>w \<in> set white_space. CHR ''['' \<notin> set w"
  by (simp add: white_space_def)

lemma generateBadges_head:
  "\<exists>cs. generateBadges h repository techStack = CHR ''['' # cs"
  by (simp add: generateBadges_def badges_array_def)

lemma sections_array_badges:
  "generateBadges h repository techStack \<in> set (fst (sections_array h repository techStack files))"
  by (simp add: sections_array_def Let_def push_def if_do_def split: prod.splits)

text \<open>
  C10. The array of badges begins with the three counter badges (stars, forks, issues) for
  every repository and profile, so the Badges section is not empty, it is not blank, and
  it is among the sections that remain after the empty ones are filtered out.
\<close>

theorem badges_section_never_empty:
  "3 \<le> length (badges_array h repository techStack)
   \<and> prefix ''[![Stars]('' (badges_array h repository techStack ! 0)
   \<and> prefix ''[![Forks]('' (badges_array h repository techStack ! 1)
   \<and> prefix ''[![Issues]('' (badges_array h repository techStack ! 2)
   \<and> generateBadges h repository techStack \<noteq> []
   \<and> trim (generateBadges h repository techStack) \<noteq> []
   \<and> generateBadges h repository techStack \<in>
       set (filter (\<lambda>section. truthy_string (trim section))
         (fst (sections_array h repository techStack files)))"
proof -
  obtain cs where g: "generateBadges h repository techStack = CHR ''['' # cs"
    using generateBadges_head by blast
  then have t: "trim (generateBadges h repository techStack) \<noteq> []"
    using trim_nonblank [of "CHR ''['' # cs"] bracket_no_space by simp
  have b: "3 \<le> length (badges_array h repository techStack)
     \<and> prefix ''[![Stars]('' (badges_array h repository techStack ! 0)
     \<and> prefix ''[![Forks]('' (badges_array h repository techStack ! 1)
     \<and> prefix ''[![Issues]('' (badges_array h repository techStack ! 2)"
    by (simp add: badges_array_def)
  from g t b sections_array_badges [of h repository techStack files] show ?thesis
    by (simp add: truthy_string_def)
qed

lemma generateReadme_listing:
  "snd (generateReadme h repository techStack files) = sort_by (compare_files h) files"
  by (simp add: generateReadme_def sections_array_def generateProjectStructure_def
      buildFileTree_def Let_def split: prod.splits)

text \<open>
  C9 (what the code does). \<open>generateReadme\<close> leaves the listing sorted: called on the
  listing of the file \<open>b.txt\<close> followed by the directory \<open>a\<close>, it leaves the
  directory first, whatever the host, the repository and the profile are.
\<close>

theorem generateReadme_reorders_listing:
  "snd (generateReadme h repository techStack [file_named ''b.txt'', dir_named ''a''])
     = [dir_named ''a'', file_named ''b.txt'']
   \<and> [dir_named ''a'', file_named ''b.txt''] \<noteq> [file_named ''b.txt'', dir_named ''a'']"
  by (simp add: generateReadme_listing sort_by_def compare_files_def file_named_def dir_named_def)

subsection \<open>Project structure\<close>

lemma mset_insert_sorted: "mset (insert_sorted cmp x ys) = add_mset x (mset ys)"
  by (induction ys) auto

lemma mset_sort_by: "mset (sort_by cmp xs) = mset xs"
  unfolding sort_by_def by (induction xs) (auto simp: mset_insert_sorted)

lemma set_insert_sorted: "set (insert_sorted cmp x ys) = insert x (set ys)"
  by (induction ys) auto

lemma sorted_insert_sorted:
  assumes "consistent_comparator cmp"
  shows "sorted_wrt (\<lambda>a b. cmp a b \<le> 0) ys \<Longrightarrow> sorted_wrt (\<lambda>a b. cmp a b \<le> 0) (insert_sorted cmp x ys)"
proof (induction ys)
  case Nil
  then show ?case by simp
next
  case (Cons y ys)
  from assms have total: "\<And>a b. cmp a b \<le> 0 \<or> cmp b a \<le> 0"
    and trans: "\<And>a b c. cmp a b \<le> 0 \<Longrightarrow> cmp b c \<le> 0 \<Longrightarrow> cmp a c \<le> 0"
    unfolding consistent_comparator_def by blast+
  show ?case
  proof (cases "cmp x y \<le> 0")
    case True
    with Cons.prems trans show ?thesis
      by auto
  next
    case False
    with total have "cmp y x \<le> 0" by blast
    with False Cons show ?thesis
      by (auto simp: set_insert_sorted)
  qed
qed

lemma sorted_sort_by:
  assumes "consistent_comparator cmp"
  shows "sorted_wrt (\<lambda>a b. cmp a b \<le> 0) (sort_by cmp xs)"
  unfolding sort_by_def by (induction xs) (simp_all add: sorted_insert_sorted [OF assms])

lemma consistent_compare_files:
  assumes "consistent_comparator (localeCompare h)"
  shows "consistent_comparator (compare_files h)"
proof -
  from assms have total: "\<And>a b. localeCompare h a b \<le> 0 \<or> localeCompare h b a \<le> 0"
    and trans: "\<And>a b c. localeCompare h a b \<le> 0 \<Longrightarrow> localeCompare h b c \<le> 0 \<Longrightarrow> localeCompare h a c \<le> 0"
    unfolding consistent_comparator_def by blast+
  have t: "compare_files h a b \<le> 0 \<or> compare_files h b a \<le> 0" for a b
    using total [of "name a" "name b"]
    by (cases "type a"; cases "type b") (auto simp: compare_files_def)
  have tr: "compare_files h a c \<le> 0" if "compare_files h a b \<le> 0" "compare_files h b c \<le> 0" for a b c
    using that trans [of "name a" "name b" "name c"]
    by (cases "type a"; cases "type b"; cases "type c") (auto simp: compare_files_def)
  from t tr show ?thesis
    unfolding consistent_comparator_def by blast
qed

lemma dirs_then_files:
  "sorted_wrt (\<lambda>a b. compare_files h a b \<le> 0) xs \<Longrightarrow>
   xs = filter (\<lambda>f. type f = Dir) xs @ filter (\<lambda>f. type f = File) xs"
proof (induction xs)
  case Nil
  then show ?case by simp
next
  case (Cons x xs)
  then have ih: "xs = filter (\<lambda>f. type f = Dir) xs @ filter (\<lambda>f. type f = File) xs"
    by simp
  show ?case
  proof (cases "type x")
    case Dir
    with ih show ?thesis by simp
  next
    case File
    have "\<forall>y \<in> set xs. type y = File"
    proof
      fix y assume "y \<in> set xs"
      with Cons.prems have "compare_files h x y \<le> 0" by simp
      with File show "type y = File"
        by (cases "type y") (auto simp: compare_files_def)
    qed
    then have "filter (\<lambda>f. type f = Dir) xs = []" and "filter (\<lambda>f. type f = File) xs = xs"
      by (auto simp: filter_empty_conv filter_id_conv)
    with File show ?thesis by simp
  qed
qed

lemma group_sorted:
  assumes "sorted_wrt (\<lambda>a b. compare_files h a b \<le> 0) xs"
  shows "sorted_wrt (\<lambda>a b. localeCompare h (name a) (name b) \<le> 0) (filter (\<lambda>f. type f = t) xs)"
proof -
  from assms have "sorted_wrt (\<lambda>a b. compare_files h a b \<le> 0) (filter (\<lambda>f. type f = t) xs)"
    by (rule sorted_wrt_filter)
  then show ?thesis
    by (rule sorted_wrt_mono_rel [rotated]) (cases t; auto simp: compare_files_def)
qed

lemma length_tree_lines: "length (tree_lines xs) = length xs"
  by (simp add: tree_lines_def)

lemma nth_tree_lines:
  assumes "i < length xs"
  shows "tree_lines xs ! i =
     (if i + 1 = length xs then box_up_right @ box_horizontal @ box_horizontal @ '' ''
      else box_vertical_right @ box_horizontal @ box_horizontal @ '' '')
     @ (if type (xs ! i) = Dir then glyph_file_folder @ '' '' else glyph_page @ '' '')
     @ name (xs ! i)"
proof -
  have "(int i = int (length xs) - 1) = (i + 1 = length xs)"
    by auto
  with assms show ?thesis
    by (simp add: tree_lines_def nth_enumerate_eq Let_def)
qed

lemma terminal_glyph_last:
  assumes "i < length xs"
  shows "prefix (box_up_right @ box_horizontal @ box_horizontal @ '' '') (tree_lines xs ! i)
     \<longleftrightarrow> i + 1 = length xs"
  by (simp add: nth_tree_lines [OF assms] box_up_right_def box_vertical_right_def
      box_horizontal_def)

lemma buildFileTree_example:
  "fst (buildFileTree h [file_named ''b.txt'', dir_named ''a''])
     = box_vertical_right @ box_horizontal @ box_horizontal @ '' '' @ glyph_file_folder @ '' a''
       @ ''\<newline>''
       @ box_up_right @ box_horizontal @ box_horizontal @ '' '' @ glyph_page @ '' b.txt''"
  by (simp add: buildFileTree_def sort_by_def compare_files_def file_named_def dir_named_def
      tree_lines_def Let_def)

lemma collating_compare_le:
  "collating_compare a b \<le> 0 \<longleftrightarrow>
     ascii_toLowerCase a < ascii_toLowerCase b \<or> (ascii_toLowerCase a = ascii_toLowerCase b \<and> b \<le> a)"
  by (auto simp: collating_compare_def ordinal_compare_def Let_def)

lemma consistent_collating: "consistent_comparator collating_compare"
  unfolding consistent_comparator_def collating_compare_le
  by (intro conjI allI impI) auto

lemma ordinal_compare_le: "ordinal_compare a b \<le> 0 \<longleftrightarrow> a \<le> b"
  by (auto simp: ordinal_compare_def)

lemma consistent_ordinal: "consistent_comparator ordinal_compare"
  unfolding consistent_comparator_def ordinal_compare_le
  by (intro conjI allI impI) auto

text \<open>
  C6 (as the code has it). On a host whose \<open>localeCompare\<close> is consistent, the lines of
  the Project Structure section are those of the listing, every directory before every
  file, and within the directories and within the files ordered by name as
  \<open>localeCompare\<close> orders them. Every line is a glyph, an icon and the name; the glyph is
  the terminal one on the last line and on no other. The listing of the file \<open>b.txt\<close>
  followed by the directory \<open>a\<close> is rendered with \<open>a\<close> first, on every host.
\<close>

theorem project_structure_order:
  assumes "consistent_comparator (localeCompare h)"
  shows "mset (snd (buildFileTree h files)) = mset files
    \<and> snd (buildFileTree h files) =
        filter (\<lambda>f. type f = Dir) (snd (buildFileTree h files))
        @ filter (\<lambda>f. type f = File) (snd (buildFileTree h files))
    \<and> sorted_wrt (\<lambda>a b. localeCompare h (name a) (name b) \<le> 0)
        (filter (\<lambda>f. type f = Dir) (snd (buildFileTree h files)))
    \<and> sorted_wrt (\<lambda>a b. localeCompare h (name a) (name b) \<le> 0)
        (filter (\<lambda>f. type f = File) (snd (buildFileTree h files)))
    \<and> fst (buildFileTree h files) = join ''\<newline>'' (tree_lines (snd (buildFileTree h files)))
    \<and> length (tree_lines (snd (buildFileTree h files))) = length files
    \<and> (\<forall>i < length files.
          tree_lines (snd (buildFileTree h files)) ! i =
            (if i + 1 = length files then box_up_right @ box_horizontal @ box_horizontal @ '' ''
             else box_vertical_right @ box_horizontal @ box_horizontal @ '' '')
            @ (if type (snd (buildFileTree h files) ! i) = Dir then glyph_file_folder @ '' ''
               else glyph_page @ '' '')
            @ name (snd (buildFileTree h files) ! i)
          \<and> (prefix (box_up_right @ box_horizontal @ box_horizontal @ '' '')
                (tree_lines (snd (buildFileTree h files)) ! i) \<longleftrightarrow> i + 1 = length files))
    \<and> fst (buildFileTree h [file_named ''b.txt'', dir_named ''a''])
        = box_vertical_right @ box_horizontal @ box_horizontal @ '' '' @ glyph_file_folder @ '' a''
          @ ''\<newline>''
          @ box_up_right @ box_horizontal @ box_horizontal @ '' '' @ glyph_page @ '' b.txt''"
proof -
  define sorted where "sorted = sort_by (compare_files h) files"
  have s: "snd (buildFileTree h files) = sorted"
    by (simp add: buildFileTree_def sorted_def Let_def)
  have f: "fst (buildFileTree h files) = join ''\<newline>'' (tree_lines sorted)"
    by (simp add: buildFileTree_def sorted_def Let_def)
  have m: "mset sorted = mset files"
    by (simp add: sorted_def mset_sort_by)
  then have len: "length sorted = length files"
    by (rule mset_eq_length)
  have o: "sorted_wrt (\<lambda>a b. compare_files h a b \<le> 0) sorted"
    unfolding sorted_def by (rule sorted_sort_by) (rule consistent_compare_files [OF assms])
  have lines: "\<forall>i < length files.
          tree_lines sorted ! i =
            (if i + 1 = length files then box_up_right @ box_horizontal @ box_horizontal @ '' ''
             else box_vertical_right @ box_horizontal @ box_horizontal @ '' '')
            @ (if type (sorted ! i) = Dir then glyph_file_folder @ '' '' else glyph_page @ '' '')
            @ name (sorted ! i)
          \<and> (prefix (box_up_right @ box_horizontal @ box_horizontal @ '' '')
                (tree_lines sorted ! i) \<longleftrightarrow> i + 1 = length files)"
  proof (intro allI impI)
    fix i assume "i < length files"
    then have i: "i < length sorted"
      using len by simp
    show "tree_lines sorted ! i =
            (if i + 1 = length files then box_up_right @ box_horizontal @ box_horizontal @ '' ''
             else box_vertical_right @ box_horizontal @ box_horizontal @ '' '')
            @ (if type (sorted ! i) = Dir then glyph_file_folder @ '' '' else glyph_page @ '' '')
            @ name (sorted ! i)
          \<and> (prefix (box_up_right @ box_horizontal @ box_horizontal @ '' '')
                (tree_lines sorted ! i) \<longleftrightarrow> i + 1 = length files)"
      using nth_tree_lines [OF i] terminal_glyph_last [OF i] unfolding len by (rule conjI)
  qed
  show ?thesis
    unfolding s f
  proof (intro conjI)
    show "mset sorted = mset files"
      by (rule m)
    show "sorted = filter (\<lambda>f. type f = Dir) sorted @ filter (\<lambda>f. type f = File) sorted"
      by (rule dirs_then_files [OF o])
    show "sorted_wrt (\<lambda>a b. localeCompare h (name a) (name b) \<le> 0)
        (filter (\<lambda>f. type f = Dir) sorted)"
      by (rule group_sorted [OF o])
    show "sorted_wrt (\<lambda>a b. localeCompare h (name a) (name b) \<le> 0)
        (filter (\<lambda>f. type f = File) sorted)"
      by (rule group_sorted [OF o])
    show "join ''\<newline>'' (tree_lines sorted) = join ''\<newline>'' (tree_lines sorted)"
      by (rule refl)
    show "length (tree_lines sorted) = length files"
      using len by (simp add: length_tree_lines)
    show "\<forall>i < length files.
          tree_lines sorted ! i =
            (if i + 1 = length files then box_up_right @ box_horizontal @ box_horizontal @ '' ''
             else box_vertical_right @ box_horizontal @ box_horizontal @ '' '')
            @ (if type (sorted ! i) = Dir then glyph_file_folder @ '' '' else glyph_page @ '' '')
            @ name (sorted ! i)
          \<and> (prefix (box_up_right @ box_horizontal @ box_horizontal @ '' '')
                (tree_lines sorted ! i) \<longleftrightarrow> i + 1 = length files)"
      by (rule lines)
    show "fst (buildFileTree h [file_named ''b.txt'', dir_named ''a''])
        = box_vertical_right @ box_horizontal @ box_horizontal @ '' '' @ glyph_file_folder @ '' a''
          @ ''\<newline>''
          @ box_up_right @ box_horizontal @ box_horizontal @ '' '' @ glyph_page @ '' b.txt''"
      by (rule buildFileTree_example)
  qed
qed

text \<open>The host that compares ordinally is consistent; a listing of three entries on it.\<close>

theorem project_structure_order_witness:
  "consistent_comparator (localeCompare host_ordinal)
   \<and> snd (buildFileTree host_ordinal [file_named ''b.txt'', dir_named ''src'', file_named ''a.txt''])
     = filter (\<lambda>f. type f = Dir)
         (snd (buildFileTree host_ordinal [file_named ''b.txt'', dir_named ''src'', file_named ''a.txt'']))
       @ filter (\<lambda>f. type f = File)
         (snd (buildFileTree host_ordinal [file_named ''b.txt'', dir_named ''src'', file_named ''a.txt'']))
   \<and> snd (buildFileTree host_ordinal [file_named ''b.txt'', dir_named ''src'', file_named ''a.txt''])
     = [dir_named ''src'', file_named ''a.txt'', file_named ''b.txt'']"
proof -
  have c: "consistent_comparator (localeCompare host_ordinal)"
    by (simp add: host_ordinal_def consistent_ordinal)
  have e: "snd (buildFileTree host_ordinal [file_named ''b.txt'', dir_named ''src'', file_named ''a.txt''])
     = [dir_named ''src'', file_named ''a.txt'', file_named ''b.txt'']"
    by (simp add: buildFileTree_def sort_by_def compare_files_def file_named_def dir_named_def
        host_ordinal_def ordinal_compare_def Let_def)
  from project_structure_order [OF c, of "[file_named ''b.txt'', dir_named ''src'', file_named ''a.txt'']"] c e
  show ?thesis
    by blast
qed

text \<open>
  C6 (as stated) orders the names within a group by the ordinal comparison. On the
  collating host, which is consistent, the files \<open>B\<close> and \<open>a\<close> are rendered with \<open>a\<close>
  first, while the ordinal comparison puts \<open>B\<close> first.
\<close>

theorem project_structure_ordinal_counterexample:
  "consistent_comparator (localeCompare host_collating)
   \<and> map name (snd (buildFileTree host_collating [file_named ''B'', file_named ''a''])) = [''a'', ''B'']
   \<and> fst (buildFileTree host_collating [file_named ''B'', file_named ''a''])
       = box_vertical_right @ box_horizontal @ box_horizontal @ '' '' @ glyph_page @ '' a''
         @ ''\<newline>''
         @ box_up_right @ box_horizontal @ box_horizontal @ '' '' @ glyph_page @ '' B''
   \<and> \<not> sorted_wrt (\<lambda>a b. ordinal_compare (name a) (name b) \<le> 0)
         (filter (\<lambda>f. type f = File)
            (snd (buildFileTree host_collating [file_named ''B'', file_named ''a''])))"
proof -
  have c: "consistent_comparator (localeCompare host_collating)"
    by (simp add: host_collating_def host_ordinal_def consistent_collating)
  have k: "collating_compare ''B'' ''a'' = 1"
    by (simp add: collating_compare_def ordinal_compare_def ascii_toLowerCase_def ascii_toLowerCase_char_def)
  have s: "snd (buildFileTree host_collating [file_named ''B'', file_named ''a''])
      = [file_named ''a'', file_named ''B'']"
    by (simp add: buildFileTree_def sort_by_def compare_files_def file_named_def
        host_collating_def host_ordinal_def k Let_def)
  have f: "fst (buildFileTree host_collating [file_named ''B'', file_named ''a''])
       = box_vertical_right @ box_horizontal @ box_horizontal @ '' '' @ glyph_page @ '' a''
         @ ''\<newline>''
         @ box_up_right @ box_horizontal @ box_horizontal @ '' '' @ glyph_page @ '' B''"
    by (simp add: buildFileTree_def sort_by_def compare_files_def file_named_def
        host_collating_def host_ordinal_def k tree_lines_def Let_def)
  have o: "ordinal_compare ''a'' ''B'' = 1"
    by (simp add: ordinal_compare_def)
  from c s f o show ?thesis
    by (simp add: file_named_def)
qed

subsection \<open>Features\<close>

lemma block_Nil: "block [] s = s"
  by (simp add: block_def)

lemma block_Cons: "block (stmt # stmts) s = block stmts (stmt s)"
  by (simp add: block_def)

lemma if_do_push: "if_do c (push x) s = s @ (if c then [x] else [])"
  by (simp add: if_do_def push_def)

lemma if_do_push_if_do: "if_do c (block [push a, if_do d (push b)]) s = s @ (if c then a # (if d then [b] else []) else [])"
  by (simp add: if_do_def push_def block_def)

lemma if_do_push_push: "if_do c (block [push a, push b]) s = s @ (if c then [a, b] else [])"
  by (simp add: if_do_def push_def block_def)

lemma derived_features_concat:
  "derived_features h techStack files =
     (if ''React'' \<in> set (frameworks techStack)
      then (glyph_atom @ variation_selector_16 @ '' Built with React for dynamic user interfaces'')
           # (if ''TypeScript'' \<in> set (tools techStack)
              then [glyph_blue_book @ '' Full TypeScript support for type safety''] else [])
      else [])
     @ (if ''Next.js'' \<in> set (frameworks techStack)
        then [glyph_rocket @ '' Server-side rendering with Next.js'',
              glyph_mobile_phone @ '' Optimized for performance and SEO''] else [])
     @ (if ''Tailwind CSS'' \<in> set (tools techStack)
        then [glyph_palette @ '' Responsive design with Tailwind CSS''] else [])
     @ (if ''Express.js'' \<in> set (frameworks techStack)
        then [glyph_wrench @ '' RESTful API with Express.js''] else [])
     @ (if length (databases techStack) > 0
        then [glyph_file_cabinet @ variation_selector_16 @ '' Database integration with ''
              @ join '', '' (databases techStack)] else [])
     @ (if has_name h ''dockerfile'' files
        then [glyph_whale @ '' Docker containerization for easy deployment''] else [])
     @ (if list_ex (\<lambda>f. includes_str (path f) ''.github/workflows'') files
        then [glyph_arrows_circle @ '' Automated CI/CD with GitHub Actions''] else [])
     @ (if list_ex (\<lambda>f. includes_str (toLowerCase h (name f)) ''test''
                 \<or> includes_str (toLowerCase h (name f)) ''spec'') files
        then [glyph_test_tube @ '' Comprehensive testing suite''] else [])
     @ (if has_name h ''.env.example'' files
        then [glyph_gear @ variation_selector_16 @ '' Environment-based configuration''] else [])"
  unfolding derived_features_def Let_def has_name_def
  by (simp only: block_Cons block_Nil if_do_push if_do_push_if_do if_do_push_push
      append_Nil append_assoc list_ex_iff set_map image_iff bex_simps)

lemma derived_features_empty:
  "derived_features h techStack files = [] \<longleftrightarrow> True \<notin> set (feature_signals h techStack files)"
  unfolding derived_features_concat feature_signals_def
  by (simp only: append_is_Nil_conv) auto

lemmas feature_glyphs = glyph_atom_def variation_selector_16_def glyph_blue_book_def
  glyph_rocket_def glyph_mobile_phone_def glyph_palette_def glyph_wrench_def
  glyph_file_cabinet_def glyph_whale_def glyph_arrows_circle_def glyph_test_tube_def
  glyph_gear_def glyph_sparkles_def glyph_high_voltage_def glyph_lock_def

lemma derived_not_default:
  "set (derived_features h techStack files) \<inter> set default_features = {}"
  unfolding derived_features_concat default_features_def
  by (auto simp: feature_glyphs split: if_splits)

lemma default_features_nonempty: "default_features \<noteq> []"
  by (simp add: default_features_def)

text \<open>
  C5. The list of features is the fixed list of four default features if and only if
  none of the conditions that derive a feature holds; the conditions on file names
  compare the names in the host's lower case. It is never empty, and when a
  condition holds it consists of derived features only, none of which is a default
  feature. The section is its heading followed by the features, one on a line.
\<close>

theorem features_fallback:
  "(features_array h techStack files = default_features
      \<longleftrightarrow> True \<notin> set (feature_signals h techStack files))
   \<and> features_array h techStack files \<noteq> []
   \<and> (True \<in> set (feature_signals h techStack files) \<longrightarrow>
        features_array h techStack files = derived_features h techStack files
        \<and> set (features_array h techStack files) \<inter> set default_features = {})
   \<and> generateFeatures h repository techStack files =
        ''## '' @ glyph_sparkles @ '' Features\<newline>\<newline>''
        @ join ''\<newline>'' (features_array h techStack files)"
proof (cases "derived_features h techStack files = []")
  case True
  then have "features_array h techStack files = default_features"
    by (simp add: features_array_def)
  with True derived_features_empty [of h techStack files] default_features_nonempty show ?thesis
    by (simp add: generateFeatures_def)
next
  case False
  then have f: "features_array h techStack files = derived_features h techStack files"
    by (simp add: features_array_def)
  have "derived_features h techStack files \<noteq> default_features"
  proof
    assume e: "derived_features h techStack files = default_features"
    with derived_not_default [of h techStack files] have "set default_features = {}"
      by simp
    with default_features_nonempty show False
      by simp
  qed
  with False f derived_features_empty [of h techStack files] derived_not_default [of h techStack files]
  show ?thesis
    by (simp add: generateFeatures_def)
qed

text \<open>
  A React profile with TypeScript derives two features, which replace the default ones;
  an empty profile with a listing of \<open>README.md\<close> alone gets the default ones.
\<close>

theorem features_fallback_witness:
  "True \<in> set (feature_signals host_ordinal stack_react [])
   \<and> features_array host_ordinal stack_react [] =
       [glyph_atom @ variation_selector_16 @ '' Built with React for dynamic user interfaces'',
        glyph_blue_book @ '' Full TypeScript support for type safety'']
   \<and> set (features_array host_ordinal stack_react []) \<inter> set default_features = {}
   \<and> True \<notin> set (feature_signals host_ordinal stack_empty [file_named ''README.md''])
   \<and> features_array host_ordinal stack_empty [file_named ''README.md''] = default_features"
proof -
  have n: "True \<notin> set (feature_signals host_ordinal stack_empty [file_named ''README.md''])"
    by (simp add: feature_signals_def stack_empty_def has_name_def file_named_def
        host_ordinal_def ascii_toLowerCase_def ascii_toLowerCase_char_def includes_str_def sublist_Cons_right)
  with features_fallback [of host_ordinal stack_empty "[file_named ''README.md'']"]
  have m: "features_array host_ordinal stack_empty [file_named ''README.md''] = default_features"
    by blast
  have r: "True \<in> set (feature_signals host_ordinal stack_react [])"
    by (simp add: feature_signals_def stack_react_def)
  have d: "derived_features host_ordinal stack_react [] =
       [glyph_atom @ variation_selector_16 @ '' Built with React for dynamic user interfaces'',
        glyph_blue_book @ '' Full TypeScript support for type safety'']"
    by (simp add: derived_features_concat stack_react_def has_name_def)
  from features_fallback [of host_ordinal stack_react "[]"] r
  have a: "features_array host_ordinal stack_react [] = derived_features host_ordinal stack_react []"
    and b: "set (features_array host_ordinal stack_react []) \<inter> set default_features = {}"
    by blast+
  from a d have "features_array host_ordinal stack_react [] =
       [glyph_atom @ variation_selector_16 @ '' Built with React for dynamic user interfaces'',
        glyph_blue_book @ '' Full TypeScript support for type safety'']"
    by (rule trans)
  with r b n m show ?thesis
    by blast
qed

subsection \<open>Installation\<close>

lemma installSteps_distinct:
  "installSteps_node pm \<noteq> installSteps_python"
  "installSteps_node pm \<noteq> installSteps_java"
  "installSteps_node pm \<noteq> installSteps_generic"
  "installSteps_python \<noteq> installSteps_java"
  "installSteps_python \<noteq> installSteps_generic"
  "installSteps_java \<noteq> installSteps_generic"
  by (simp_all add: installSteps_node_def installSteps_python_def installSteps_java_def
      installSteps_generic_def)

lemma prerequisites_once_npm:
  "occurrences ''### Prerequisites'' (installation_heading @ installSteps_node ''npm'') = 1"
  by code_simp

lemma prerequisites_once_yarn:
  "occurrences ''### Prerequisites'' (installation_heading @ installSteps_node ''yarn'') = 1"
  by code_simp

lemma prerequisites_once_pnpm:
  "occurrences ''### Prerequisites'' (installation_heading @ installSteps_node ''pnpm'') = 1"
  by code_simp

lemma prerequisites_once_python:
  "occurrences ''### Prerequisites'' (installation_heading @ installSteps_python) = 1"
  by code_simp

lemma prerequisites_once_java:
  "occurrences ''### Prerequisites'' (installation_heading @ installSteps_java) = 1"
  by code_simp

lemma prerequisites_once_generic:
  "occurrences ''### Prerequisites'' (installation_heading @ installSteps_generic) = 1"
  by code_simp

lemma generateInstallation_cases:
  "generateInstallation h techStack files =
     installation_heading @
     (if has_name h ''package.json'' files then
        installSteps_node
          (if has_name h ''yarn.lock'' files then ''yarn''
           else if has_name h ''pnpm-lock.yaml'' files then ''pnpm'' else ''npm'')
      else if has_name h ''requirements.txt'' files \<or> has_name h ''pyproject.toml'' files then
        installSteps_python
      else if has_name h ''pom.xml'' files then installSteps_java
      else installSteps_generic)"
  by (simp add: generateInstallation_def installation_heading_def has_name_def Let_def)

text \<open>
  C4. The Installation section is its heading followed by one template, chosen by the
  names of the listing in the host's lower case: the one for a
  package manifest when \<open>package.json\<close> is in the listing, else the Python one when
  \<open>requirements.txt\<close> or \<open>pyproject.toml\<close> is, else the Java one when \<open>pom.xml\<close> is,
  else the generic one. Exactly one of the four templates is the rendered one, and the
  section holds the line that opens a template exactly once.
\<close>

theorem installation_one_template:
  "(has_name h ''package.json'' files \<longrightarrow>
      generateInstallation h techStack files =
        installation_heading @ installSteps_node
          (if has_name h ''yarn.lock'' files then ''yarn''
           else if has_name h ''pnpm-lock.yaml'' files then ''pnpm'' else ''npm''))
   \<and> (\<not> has_name h ''package.json'' files
        \<and> (has_name h ''requirements.txt'' files \<or> has_name h ''pyproject.toml'' files) \<longrightarrow>
      generateInstallation h techStack files = installation_heading @ installSteps_python)
   \<and> (\<not> has_name h ''package.json'' files \<and> \<not> has_name h ''requirements.txt'' files
        \<and> \<not> has_name h ''pyproject.toml'' files \<and> has_name h ''pom.xml'' files \<longrightarrow>
      generateInstallation h techStack files = installation_heading @ installSteps_java)
   \<and> (\<not> has_name h ''package.json'' files \<and> \<not> has_name h ''requirements.txt'' files
        \<and> \<not> has_name h ''pyproject.toml'' files \<and> \<not> has_name h ''pom.xml'' files \<longrightarrow>
      generateInstallation h techStack files = installation_heading @ installSteps_generic)
   \<and> length (filter (\<lambda>t. generateInstallation h techStack files = installation_heading @ t)
        [installSteps_node
           (if has_name h ''yarn.lock'' files then ''yarn''
            else if has_name h ''pnpm-lock.yaml'' files then ''pnpm'' else ''npm''),
         installSteps_python, installSteps_java, installSteps_generic]) = 1
   \<and> occurrences ''### Prerequisites'' (generateInstallation h techStack files) = 1"
proof -
  have once: "occurrences ''### Prerequisites'' (generateInstallation h techStack files) = 1"
    unfolding generateInstallation_cases
    by (simp add: prerequisites_once_npm prerequisites_once_yarn prerequisites_once_pnpm
        prerequisites_once_python prerequisites_once_java prerequisites_once_generic)
  have one: "length (filter (\<lambda>t. generateInstallation h techStack files = installation_heading @ t)
        [installSteps_node
           (if has_name h ''yarn.lock'' files then ''yarn''
            else if has_name h ''pnpm-lock.yaml'' files then ''pnpm'' else ''npm''),
         installSteps_python, installSteps_java, installSteps_generic]) = 1"
    unfolding generateInstallation_cases
    by (simp add: installSteps_distinct installSteps_distinct [symmetric])
  show ?thesis
    using once one by (simp add: generateInstallation_cases)
qed

text \<open>
  A listing with only \<open>README.md\<close> renders the generic template, one with \<open>pom.xml\<close> the
  Java one, one with \<open>pyproject.toml\<close> and \<open>pom.xml\<close> the Python one, and one with
  \<open>Package.json\<close> and \<open>requirements.txt\<close> the template for a package manifest.
\<close>

theorem installation_one_template_witness:
  "\<not> has_name host_ordinal ''package.json'' [file_named ''README.md'']
   \<and> \<not> has_name host_ordinal ''requirements.txt'' [file_named ''README.md'']
   \<and> \<not> has_name host_ordinal ''pyproject.toml'' [file_named ''README.md'']
   \<and> \<not> has_name host_ordinal ''pom.xml'' [file_named ''README.md'']
   \<and> generateInstallation host_ordinal stack_empty [file_named ''README.md'']
       = installation_heading @ installSteps_generic
   \<and> has_name host_ordinal ''pom.xml'' [file_named ''pom.xml'']
   \<and> generateInstallation host_ordinal stack_empty [file_named ''pom.xml'']
       = installation_heading @ installSteps_java
   \<and> has_name host_ordinal ''pyproject.toml'' [file_named ''pyproject.toml'', file_named ''pom.xml'']
   \<and> generateInstallation host_ordinal stack_empty [file_named ''pyproject.toml'', file_named ''pom.xml'']
       = installation_heading @ installSteps_python
   \<and> has_name host_ordinal ''package.json'' [file_named ''Package.json'', file_named ''requirements.txt'']
   \<and> generateInstallation host_ordinal stack_empty [file_named ''Package.json'', file_named ''requirements.txt'']
       = installation_heading @ installSteps_node ''npm''"
proof -
  have a: "\<not> has_name host_ordinal ''package.json'' [file_named ''README.md'']"
    "\<not> has_name host_ordinal ''requirements.txt'' [file_named ''README.md'']"
    "\<not> has_name host_ordinal ''pyproject.toml'' [file_named ''README.md'']"
    "\<not> has_name host_ordinal ''pom.xml'' [file_named ''README.md'']"
    by (simp_all add: has_name_def file_named_def host_ordinal_def ascii_toLowerCase_def ascii_toLowerCase_char_def)
  have j: "\<not> has_name host_ordinal ''package.json'' [file_named ''pom.xml'']"
    "\<not> has_name host_ordinal ''requirements.txt'' [file_named ''pom.xml'']"
    "\<not> has_name host_ordinal ''pyproject.toml'' [file_named ''pom.xml'']"
    "has_name host_ordinal ''pom.xml'' [file_named ''pom.xml'']"
    by (simp_all add: has_name_def file_named_def host_ordinal_def ascii_toLowerCase_def ascii_toLowerCase_char_def)
  have p: "\<not> has_name host_ordinal ''package.json'' [file_named ''pyproject.toml'', file_named ''pom.xml'']"
    "has_name host_ordinal ''pyproject.toml'' [file_named ''pyproject.toml'', file_named ''pom.xml'']"
    by (simp_all add: has_name_def file_named_def host_ordinal_def ascii_toLowerCase_def ascii_toLowerCase_char_def)
  have b: "has_name host_ordinal ''package.json'' [file_named ''Package.json'', file_named ''requirements.txt'']"
    "\<not> has_name host_ordinal ''yarn.lock'' [file_named ''Package.json'', file_named ''requirements.txt'']"
    "\<not> has_name host_ordinal ''pnpm-lock.yaml'' [file_named ''Package.json'', file_named ''requirements.txt'']"
    by (simp_all add: has_name_def file_named_def host_ordinal_def ascii_toLowerCase_def ascii_toLowerCase_char_def)
  from installation_one_template [of host_ordinal "[file_named ''README.md'']" stack_empty] a
  have c: "generateInstallation host_ordinal stack_empty [file_named ''README.md'']
      = installation_heading @ installSteps_generic"
    by blast
  from installation_one_template [of host_ordinal "[file_named ''pom.xml'']" stack_empty] j
  have k: "generateInstallation host_ordinal stack_empty [file_named ''pom.xml'']
      = installation_heading @ installSteps_java"
    by blast
  from installation_one_template [of host_ordinal "[file_named ''pyproject.toml'', file_named ''pom.xml'']" stack_empty] p
  have q: "generateInstallation host_ordinal stack_empty [file_named ''pyproject.toml'', file_named ''pom.xml'']
      = installation_heading @ installSteps_python"
    by blast
  from installation_one_template [of host_ordinal "[file_named ''Package.json'', file_named ''requirements.txt'']" stack_empty] b
  have d: "generateInstallation host_ordinal stack_empty [file_named ''Package.json'', file_named ''requirements.txt'']
       = installation_heading @ installSteps_node ''npm''"
    by simp
  from a j(4) p(2) b(1) c k q d show ?thesis
    by blast
qed

subsection \<open>Placeholder resolution\<close>

lemma getSubstitution_literal:
  "CHR ''$'' \<notin> set r \<Longrightarrow> getSubstitution m b a r = r"
  by (induction m b a r rule: getSubstitution.induct) auto

lemma join_Cons: "join sep (x # xs) = (if xs = [] then x else x @ sep @ join sep xs)"
  by (cases xs) simp_all

lemma sublist_join: "x \<in> set xs \<Longrightarrow> sublist x (join sep xs)"
proof (induction xs)
  case Nil
  then show ?case by simp
next
  case (Cons y ys)
  show ?case
  proof (cases "x = y")
    case True
    then show ?thesis by (simp add: join_Cons)
  next
    case False
    with Cons have "sublist x (join sep ys)" and "ys \<noteq> []" by auto
    then have "sublist x ((y @ sep) @ join sep ys)"
      by (auto simp only: sublist_append)
    with \<open>ys \<noteq> []\<close> show ?thesis by (simp add: join_Cons)
  qed
qed

text \<open>The text between the matches: the string and the result are built from the same chunks.\<close>

lemma replace_from_chunks:
  "p \<noteq> [] \<Longrightarrow> CHR ''$'' \<notin> set r \<Longrightarrow>
   \<exists>cs. cs \<noteq> [] \<and> s = join p cs \<and> replace_from p r b s = join r cs
        \<and> (\<forall>c \<in> set cs. \<not> sublist p c)"
proof (induction p r b s rule: replace_from.induct)
  case (1 p r b)
  have "[[]] \<noteq> [] \<and> [] = join p [[]] \<and> replace_from p r b [] = join r [[]]
      \<and> (\<forall>c \<in> set [[]]. \<not> sublist p c)"
    using "1.prems"(1) by simp
  then show ?case by blast
next
  case (2 p r b c cs)
  show ?case
  proof (cases "prefix p (c # cs)")
    case True
    with "2.prems" "2.IH"(1)
    obtain ds where ds: "ds \<noteq> []" "drop (length p) (c # cs) = join p ds"
      "replace_from p r (b @ p) (drop (length p) (c # cs)) = join r ds"
      "\<forall>d \<in> set ds. \<not> sublist p d"
      by blast
    from True have s: "c # cs = p @ drop (length p) (c # cs)"
      by (metis append_eq_conv_conj prefix_def)
    have "[] # ds \<noteq> []" by simp
    moreover have "c # cs = join p ([] # ds)"
      using s ds(1,2) by (simp add: join_Cons)
    moreover have "replace_from p r b (c # cs) = join r ([] # ds)"
      using True "2.prems" ds(1,3) by (simp add: join_Cons getSubstitution_literal)
    moreover have "\<forall>d \<in> set ([] # ds). \<not> sublist p d"
      using ds(4) "2.prems"(1) by simp
    ultimately show ?thesis by blast
  next
    case False
    with "2.prems" "2.IH"(2)
    obtain ds where ds: "ds \<noteq> []" "cs = join p ds"
      "replace_from p r (b @ [c]) cs = join r ds"
      "\<forall>d \<in> set ds. \<not> sublist p d"
      by blast
    then obtain d ds' where dd: "ds = d # ds'" by (cases ds) auto
    have "(c # d) # ds' \<noteq> []" by simp
    moreover have j: "c # cs = join p ((c # d) # ds')"
      using ds(2) dd by (simp add: join_Cons)
    moreover have "replace_from p r b (c # cs) = join r ((c # d) # ds')"
      using False ds(3) dd by (simp add: join_Cons)
    moreover have "\<not> sublist p (c # d)"
    proof
      assume "sublist p (c # d)"
      with ds(4) dd have "prefix p (c # d)"
        by (simp add: sublist_Cons_right)
      moreover have "prefix (c # d) (c # cs)"
        unfolding j by (simp add: join_Cons)
      ultimately have "prefix p (c # cs)"
        by (rule prefix_order.trans)
      with False show False by simp
    qed
    then have "\<forall>x \<in> set ((c # d) # ds'). \<not> sublist p x"
      using ds(4) dd by simp
    ultimately show ?thesis by blast
  qed
qed

lemma sublist_around:
  assumes "sublist u (x @ r @ z)" and "r \<noteq> []" and "hd r \<notin> set u" and "last r \<notin> set u"
  shows "sublist u x \<or> sublist u r \<or> sublist u z"
proof -
  from assms(1) consider "sublist u x" | "sublist u (r @ z)"
    | u1 u2 where "u = u1 @ u2" "suffix u1 x" "prefix u2 (r @ z)"
    by (auto simp: sublist_append)
  then show ?thesis
  proof cases
    case 1
    then show ?thesis by simp
  next
    case 2
    then consider "sublist u r" | "sublist u z"
      | u1 u2 where "u = u1 @ u2" "suffix u1 r" "prefix u2 z"
      by (auto simp: sublist_append)
    then show ?thesis
    proof cases
      case (3 u1 u2)
      show ?thesis
      proof (cases "u1 = []")
        case True
        with 3 show ?thesis by auto
      next
        case False
        with 3(2) have "last u1 = last r"
          by (auto simp: suffix_def)
        with False 3(1) assms(4) show ?thesis
          by (metis Un_iff last_in_set set_append)
      qed
    qed simp_all
  next
    case (3 u1 u2)
    show ?thesis
    proof (cases "u2 = []")
      case True
      with 3 show ?thesis by auto
    next
      case False
      with 3(3) assms(2) have "hd u2 = hd r"
        by (cases u2; cases r) (auto simp: prefix_Cons)
      with False 3(1) assms(3) show ?thesis
        by (metis Un_iff hd_in_set set_append)
    qed
  qed
qed

lemma join_clean:
  assumes "r \<noteq> []" and "hd r \<notin> set u" and "last r \<notin> set u" and "\<not> sublist u r"
  shows "\<forall>c \<in> set cs. \<not> sublist u c \<Longrightarrow> cs \<noteq> [] \<Longrightarrow> \<not> sublist u (join r cs)"
proof (induction cs)
  case Nil
  then show ?case by simp
next
  case (Cons c cs)
  show ?case
  proof (cases "cs = []")
    case True
    with Cons.prems show ?thesis by simp
  next
    case False
    with Cons have ih: "\<not> sublist u (join r cs)" by simp
    show ?thesis
    proof
      assume "sublist u (join r (c # cs))"
      with False have "sublist u (c @ r @ join r cs)"
        by (simp add: join_Cons)
      from sublist_around [OF this assms(1-3)] Cons.prems(1) assms(4) ih show False
        by simp
    qed
  qed
qed

lemma replace_global_clean:
  assumes "p \<noteq> []" and "CHR ''$'' \<notin> set r" and "clean_for p r"
  shows "\<not> sublist p (replace_global p r s)"
proof -
  from replace_from_chunks [OF assms(1,2), of s "[]"]
  obtain cs where cs: "cs \<noteq> []" "replace_from p r [] s = join r cs" "\<forall>c \<in> set cs. \<not> sublist p c"
    by blast
  from assms(3) have "r \<noteq> []" "hd r \<notin> set p" "last r \<notin> set p" "\<not> sublist p r"
    by (simp_all add: clean_for_def includes_str_def)
  from join_clean [OF this cs(3,1)] cs(2) show ?thesis
    by (simp add: replace_global_def)
qed

lemma sublist_chain: "sublist a b \<Longrightarrow> sublist b c \<Longrightarrow> sublist a c"
proof -
  assume "sublist a b" and "sublist b c"
  then obtain p1 s1 p2 s2 where "b = p1 @ a @ s1" and "c = p2 @ b @ s2"
    by (auto simp: sublist_def)
  then have "c = (p2 @ p1) @ a @ (s1 @ s2)"
    by simp
  then show ?thesis
    unfolding sublist_def by blast
qed

lemma replace_global_keeps_clean:
  assumes "p \<noteq> []" and "CHR ''$'' \<notin> set r" and "clean_for u r" and "\<not> sublist u s"
  shows "\<not> sublist u (replace_global p r s)"
proof -
  from replace_from_chunks [OF assms(1,2), of s "[]"]
  obtain cs where cs: "cs \<noteq> []" "s = join p cs" "replace_from p r [] s = join r cs"
    by blast
  have "\<forall>c \<in> set cs. \<not> sublist u c"
  proof
    fix c assume "c \<in> set cs"
    then have "sublist c s"
      unfolding cs(2) by (rule sublist_join)
    with assms(4) show "\<not> sublist u c"
      using sublist_chain by blast
  qed
  moreover from assms(3) have "r \<noteq> []" "hd r \<notin> set u" "last r \<notin> set u" "\<not> sublist u r"
    by (simp_all add: clean_for_def includes_str_def)
  ultimately show ?thesis
    using join_clean [of r u cs] cs(1,3) by (simp add: replace_global_def)
qed

lemma replace_global_contains:
  assumes "p \<noteq> []" and "CHR ''$'' \<notin> set r" and "sublist p s"
  shows "sublist r (replace_global p r s)"
proof -
  from replace_from_chunks [OF assms(1,2), of s "[]"]
  obtain cs where cs: "cs \<noteq> []" "s = join p cs" "replace_from p r [] s = join r cs"
    "\<forall>c \<in> set cs. \<not> sublist p c"
    by blast
  then obtain c ds where c: "cs = c # ds" by (cases cs) auto
  have "ds \<noteq> []"
  proof
    assume "ds = []"
    with c cs(2,4) assms(3) show False by simp
  qed
  with c cs(3) have "replace_global p r s = c @ r @ join r ds"
    by (simp add: replace_global_def join_Cons)
  then show ?thesis by simp
qed

text \<open>
  C1 (as the code has it). When the clone URL and the repository name hold no dollar sign,
  the clone URL is clean for \<open>REPO_URL\<close> and the name is clean for both tokens, the
  document that synthesis and the two replacements produce contains neither
  \<open>REPO_URL\<close> nor \<open>REPO_NAME\<close>, for every host, profile and listing and whatever the
  texts of the repository are.
\<close>

theorem placeholders_resolved:
  assumes "CHR ''$'' \<notin> set (clone_url repository)"
    and "clean_for ''REPO_URL'' (clone_url repository)"
    and "CHR ''$'' \<notin> set (Repository.name repository)"
    and "clean_for ''REPO_URL'' (Repository.name repository)"
    and "clean_for ''REPO_NAME'' (Repository.name repository)"
  shows "\<not> includes_str (finalReadme repository (fst (generateReadme h repository techStack files))) ''REPO_URL''
    \<and> \<not> includes_str (finalReadme repository (fst (generateReadme h repository techStack files))) ''REPO_NAME''"
proof -
  define doc where "doc = fst (generateReadme h repository techStack files)"
  define out1 where "out1 = replace_global ''REPO_URL'' (clone_url repository) doc"
  have 1: "\<not> sublist ''REPO_URL'' out1"
    unfolding out1_def by (rule replace_global_clean [OF _ assms(1,2)]) simp
  have 2: "\<not> sublist ''REPO_URL'' (replace_global ''REPO_NAME'' (Repository.name repository) out1)"
    by (rule replace_global_keeps_clean [OF _ assms(3,4) 1]) simp
  have 3: "\<not> sublist ''REPO_NAME'' (replace_global ''REPO_NAME'' (Repository.name repository) out1)"
    by (rule replace_global_clean [OF _ assms(3,5)]) simp
  from 2 3 show ?thesis
    by (simp add: includes_str_def finalReadme_def out1_def doc_def)
qed


lemma sublist_skip: "sublist u z \<Longrightarrow> sublist u (a @ z)"
  by (simp add: sublist_append)

lemma installSteps_have_placeholder:
  "sublist ''REPO_URL'' (installSteps_node pm)"
  "sublist ''REPO_URL'' installSteps_python"
  "sublist ''REPO_URL'' installSteps_java"
  "sublist ''REPO_URL'' installSteps_generic"
  unfolding installSteps_node_def installSteps_python_def installSteps_java_def
    installSteps_generic_def getCloneUrl_def
  by (rule sublist_append_rightI | rule sublist_skip)+

lemma generateInstallation_has_placeholder:
  "sublist ''REPO_URL'' (generateInstallation h techStack files)"
  unfolding generateInstallation_cases
  by (rule sublist_skip) (simp add: installSteps_have_placeholder)

lemma hash_no_space: "\<forall>w \<in> set white_space. CHR ''#'' \<notin> set w"
  by (simp add: white_space_def)

lemma generateInstallation_kept:
  "generateInstallation h techStack files \<in>
     set (filter (\<lambda>section. truthy_string (trim section))
       (fst (sections_array h repository techStack files)))"
proof -
  have "\<exists>cs. generateInstallation h techStack files = CHR ''#'' # cs"
    by (simp add: generateInstallation_cases installation_heading_def)
  then obtain cs where g: "generateInstallation h techStack files = CHR ''#'' # cs"
    by blast
  have "trim (generateInstallation h techStack files) \<noteq> []"
    unfolding g using trim_nonblank [of "CHR ''#'' # cs"] hash_no_space by simp
  moreover have "generateInstallation h techStack files \<in> set (fst (sections_array h repository techStack files))"
    by (simp add: sections_array_def Let_def push_def if_do_def split: prod.splits)
  ultimately show ?thesis
    by (simp add: truthy_string_def)
qed

lemma generateReadme_has_placeholder:
  "sublist ''REPO_URL'' (fst (generateReadme h repository techStack files))"
proof -
  have "sublist (generateInstallation h techStack files) (fst (generateReadme h repository techStack files))"
    using sublist_join [OF generateInstallation_kept [of h techStack files repository], of "''\<newline>\<newline>''"]
    by (simp add: generateReadme_def case_prod_unfold Let_def)
  with generateInstallation_has_placeholder [of h techStack files] show ?thesis
    by (rule sublist_chain)
qed

text \<open>The repository \<open>octocat/hello-world\<close> meets the hypotheses.\<close>

theorem placeholders_resolved_witness:
  "CHR ''$'' \<notin> set (clone_url repo_hello)
   \<and> clean_for ''REPO_URL'' (clone_url repo_hello)
   \<and> CHR ''$'' \<notin> set (Repository.name repo_hello)
   \<and> clean_for ''REPO_URL'' (Repository.name repo_hello)
   \<and> clean_for ''REPO_NAME'' (Repository.name repo_hello)
   \<and> \<not> includes_str (finalReadme repo_hello
          (fst (generateReadme host_ordinal repo_hello stack_react [file_named ''package.json''])))
        ''REPO_URL''
   \<and> \<not> includes_str (finalReadme repo_hello
          (fst (generateReadme host_ordinal repo_hello stack_react [file_named ''package.json''])))
        ''REPO_NAME''"
proof -
  have a: "CHR ''$'' \<notin> set (clone_url repo_hello)"
    by (simp add: repo_hello_def)
  have b: "clean_for ''REPO_URL'' (clone_url repo_hello)"
    by code_simp
  have c: "CHR ''$'' \<notin> set (Repository.name repo_hello)"
    by (simp add: repo_hello_def)
  have d: "clean_for ''REPO_URL'' (Repository.name repo_hello)"
    by code_simp
  have e: "clean_for ''REPO_NAME'' (Repository.name repo_hello)"
    by code_simp
  from placeholders_resolved [OF a b c d e, of host_ordinal stack_react "[file_named ''package.json'']"]
    a b c d e
  show ?thesis
    by blast
qed

text \<open>
  C1 (as stated) holds for every repository. For the repository named \<open>REPO_NAME\<close> the
  resolved document contains \<open>REPO_NAME\<close>: the clone URL and the name put it there.
\<close>

theorem placeholder_name_counterexample:
  "includes_str (finalReadme repo_placeholder
      (fst (generateReadme host_ordinal repo_placeholder stack_empty [])))
     ''REPO_NAME''"
proof -
  define doc where "doc = fst (generateReadme host_ordinal repo_placeholder stack_empty [])"
  define out1 where "out1 = replace_global ''REPO_URL'' (clone_url repo_placeholder) doc"
  have u: "clone_url repo_placeholder = ''https://github.com/octocat/REPO_NAME.git''"
    and n: "Repository.name repo_placeholder = ''REPO_NAME''"
    by (simp_all add: repo_placeholder_def)
  have "sublist ''REPO_URL'' doc"
    unfolding doc_def by (rule generateReadme_has_placeholder)
  then have "sublist (clone_url repo_placeholder) out1"
    unfolding out1_def by (intro replace_global_contains) (simp_all add: u)
  moreover have "sublist ''REPO_NAME'' (clone_url repo_placeholder)"
    unfolding u by (simp add: sublist_Cons_right prefix_Cons)
  ultimately have "sublist ''REPO_NAME'' out1"
    by (rule sublist_chain [rotated])
  then have "sublist (Repository.name repo_placeholder)
      (replace_global ''REPO_NAME'' (Repository.name repo_placeholder) out1)"
    by (intro replace_global_contains) (simp_all add: n)
  then show ?thesis
    by (simp add: includes_str_def finalReadme_def out1_def doc_def n)
qed

text \<open>
  Why the replacement texts have to be clean: a replacement can complete a token with
  the text around it, and \<open>$&\<close> in a replacement puts the token back.
\<close>

lemma replacement_completes_token:
  "replace_global ''REPO_NAME'' ''E'' ''RREPO_NAMEPO_NAME'' = ''REPO_NAME''"
  by code_simp

lemma replacement_dollar_ampersand:
  "replace_global ''REPO_NAME'' ''$&'' ''cd REPO_NAME'' = ''cd REPO_NAME''"
  by code_simp

end
